theory Spec2Isabelle
  imports Complex_Main "HOL-Library.Product_Lexorder"
begin

section \<open>The synthetic sensor data generator (generate\_data.py)\<close>

text \<open>
  Conventions of the embedding.
  \<^item> numpy's and Python's floating-point numbers are modelled as \<^typ>\<open>real\<close>, in exact
    arithmetic. Where the rounding of float64 decides a property (the size of one step
    of the health score), the loop is embedded a second time with every literal and
    operation rounded to the nearest double (\<open>health_loop_f64\<close>).
  \<^item> The draws from numpy's global random generator are inputs of the model: a uniform draw
    is given by its underlying unit sample \<open>u\<close> (in the half-open interval from 0 to 1), a
    vector of normal draws by its standard-normal samples \<open>z 0, z 1, ...\<close>.
  \<^item> A pandas timestamp is modelled as the number of minutes since \<open>start_date\<close>.
  \<^item> The module-level \<open>time_index\<close> is a parameter of \<open>simulate_machine\<close>, so that the
    simulation can be evaluated on short grids as well as on the program's own.
\<close>

subsection \<open>Float64 rounding\<close>

text \<open>
  \<open>f64 x\<close> is the double nearest to \<open>x\<close>, ties to the even significand: the result of
  a float64 literal or operation whose exact value is \<open>x\<close>. The significand has 53 bits;
  overflow and subnormal numbers are left out (the values that occur below lie between
  \<open>2 ^ -70\<close> and 4).
\<close>

definition round_half_even :: "real \<Rightarrow> int" where
  \<comment> \<open>the nearest integer, a tie going to the even one; also the rule of Python's \<open>round\<close>\<close>
  "round_half_even x =
     (let f = \<lfloor>x\<rfloor>; r = x - of_int f
      in if r < 1 / 2 then f
         else if 1 / 2 < r then f + 1
         else if even f then f else f + 1)"

definition f64 :: "real \<Rightarrow> real" where
  "f64 x =
     (if x = 0 then 0
      else (let u = 2 powr (of_int \<lfloor>log 2 \<bar>x\<bar>\<rfloor> - 52)
            in of_int (round_half_even (x / u)) * u))"

subsection \<open>numpy primitives\<close>

definition uniform :: "real \<Rightarrow> real \<Rightarrow> real \<Rightarrow> real" where
  \<comment> \<open>\<open>np.random.uniform(low, high)\<close>, from the unit sample \<open>u\<close>\<close>
  "uniform low high u = low + (high - low) * u"

definition normal :: "real \<Rightarrow> real \<Rightarrow> (nat \<Rightarrow> real) \<Rightarrow> nat \<Rightarrow> real list" where
  \<comment> \<open>\<open>np.random.normal(loc, scale, size)\<close>, from the standard-normal samples \<open>z\<close>\<close>
  "normal loc scale z num = map (\<lambda>i. loc + scale * z i) [0..<num]"

definition linspace :: "real \<Rightarrow> real \<Rightarrow> nat \<Rightarrow> real list" where
  \<comment> \<open>\<open>np.linspace(start, stop, num)\<close>: \<open>arange(num) * step + start\<close>, last entry set to \<open>stop\<close>\<close>
  "linspace start stop num =
     (let step = (stop - start) / real (num - 1);
          y = map (\<lambda>i. real i * step + start) [0..<num]
      in if 1 < num then y[num - 1 := stop] else y)"

definition clip :: "real list \<Rightarrow> real \<Rightarrow> real \<Rightarrow> real list" where
  \<comment> \<open>\<open>np.clip(a, a_min, a_max)\<close>, that is \<open>minimum(a_max, maximum(a, a_min))\<close>\<close>
  "clip a a_min a_max = map (\<lambda>x. min a_max (max x a_min)) a"

definition ones :: "nat \<Rightarrow> real list" where
  "ones n = replicate n 1"

definition scalar_add :: "real \<Rightarrow> real list \<Rightarrow> real list" where
  \<comment> \<open>scalar + array (broadcast)\<close>
  "scalar_add c xs = map (\<lambda>x. c + x) xs"

definition array_add :: "real list \<Rightarrow> real list \<Rightarrow> real list" where
  \<comment> \<open>array + array, elementwise\<close>
  "array_add xs ys = map2 (+) xs ys"

subsection \<open>Configuration and the global time index\<close>

definition N_MACHINES :: nat where "N_MACHINES = 50"
definition N_DAYS :: nat where "N_DAYS = 60"
definition FREQ :: nat where "FREQ = 10"

definition date_range :: "nat \<Rightarrow> nat \<Rightarrow> nat \<Rightarrow> nat list" where
  \<comment> \<open>\<open>pd.date_range(start, end, freq)\<close>, all three in minutes; both ends included\<close>
  "date_range start stop freq = map (\<lambda>i. start + i * freq) [0..<(stop - start) div freq + 1]"

definition time_index :: "nat list" where
  "time_index = date_range 0 (N_DAYS * 24 * 60) FREQ"

definition N_STEPS :: nat where
  "N_STEPS = length time_index"

subsection \<open>One machine\<close>

record machine_draws =
  u_base_temp :: real
  u_base_vibration :: real
  u_base_pressure :: real
  u_base_load :: real
  u_base_rpm :: real
  u_temp_drift :: real
  u_vib_drift :: real
  z_temp :: "nat \<Rightarrow> real"
  z_vib :: "nat \<Rightarrow> real"
  z_pressure :: "nat \<Rightarrow> real"
  z_load :: "nat \<Rightarrow> real"
  z_rpm :: "nat \<Rightarrow> real"
  u_wear :: real

record sensor_row =
  machine_id :: nat
  timestamp :: nat
  temp_c :: real
  vibration_ms2 :: real
  pressure_psi :: real
  load_pct :: real
  rpm :: real
  health_score :: real

definition base_temp :: "machine_draws \<Rightarrow> real" where
  "base_temp d = uniform 45 55 (u_base_temp d)"

definition base_vibration :: "machine_draws \<Rightarrow> real" where
  "base_vibration d = uniform 0.8 1.2 (u_base_vibration d)"

definition base_pressure :: "machine_draws \<Rightarrow> real" where
  "base_pressure d = uniform 260 320 (u_base_pressure d)"

definition base_load :: "machine_draws \<Rightarrow> real" where
  "base_load d = uniform 50 70 (u_base_load d)"

definition base_rpm :: "machine_draws \<Rightarrow> real" where
  "base_rpm d = uniform 1500 1900 (u_base_rpm d)"

definition temp_drift :: "nat \<Rightarrow> machine_draws \<Rightarrow> real list" where
  "temp_drift n d = linspace 0 (uniform 8 18 (u_temp_drift d)) n"

definition vib_drift :: "nat \<Rightarrow> machine_draws \<Rightarrow> real list" where
  "vib_drift n d = linspace 0 (uniform 0.3 0.7 (u_vib_drift d)) n"

definition temp_signal :: "nat \<Rightarrow> machine_draws \<Rightarrow> real list" where
  "temp_signal n d =
     array_add (scalar_add (base_temp d) (temp_drift n d)) (normal 0 1.5 (z_temp d) n)"

definition vibration_signal :: "nat \<Rightarrow> machine_draws \<Rightarrow> real list" where
  "vibration_signal n d =
     array_add (scalar_add (base_vibration d) (vib_drift n d)) (normal 0 0.2 (z_vib d) n)"

definition pressure_signal :: "nat \<Rightarrow> machine_draws \<Rightarrow> real list" where
  "pressure_signal n d = scalar_add (base_pressure d) (normal 0 5 (z_pressure d) n)"

definition load_signal :: "nat \<Rightarrow> machine_draws \<Rightarrow> real list" where
  "load_signal n d = clip (scalar_add (base_load d) (normal 0 5 (z_load d) n)) 10 110"

definition rpm_signal :: "nat \<Rightarrow> machine_draws \<Rightarrow> real list" where
  "rpm_signal n d = clip (scalar_add (base_rpm d) (normal 0 40 (z_rpm d) n)) 800 2200"

definition base_wear_rate :: "machine_draws \<Rightarrow> real" where
  "base_wear_rate d = uniform 0.00015 0.0003 (u_wear d)"

definition stress_at :: "real \<Rightarrow> real \<Rightarrow> real \<Rightarrow> real" where
  \<comment> \<open>the accumulator \<open>stress\<close> of one loop iteration, updated in the source's order\<close>
  "stress_at tmp vib ld =
     (let stress = 0;
          stress = (if tmp > 65 then stress + 0.005 else stress);
          stress = (if tmp > 75 then stress + 0.010 else stress);
          stress = (if tmp > 85 then stress + 0.015 else stress);
          stress = (if vib > 1.8 then stress + 0.007 else stress);
          stress = (if vib > 2.2 then stress + 0.012 else stress);
          stress = (if vib > 2.6 then stress + 0.018 else stress);
          stress = (if ld > 80 then stress + 0.005 else stress);
          stress = (if ld > 90 then stress + 0.010 else stress)
      in stress)"

definition health_step ::
  "real \<Rightarrow> real list \<Rightarrow> real list \<Rightarrow> real list \<Rightarrow> nat \<Rightarrow> real list \<Rightarrow> real list" where
  \<comment> \<open>the body of \<open>for t in range(1, N_STEPS)\<close>: one write to \<open>health_score[t]\<close>, in
      exact arithmetic (\<open>health_step_f64\<close> below is the same body with float64 rounding)\<close>
  "health_step wear_rate temp vibration load t hs =
     (let stress = stress_at (temp ! t) (vibration ! t) (load ! t);
          total_wear = wear_rate + stress
      in hs[t := max 0 (hs ! (t - 1) - total_wear)])"

definition health_loop ::
  "real \<Rightarrow> real list \<Rightarrow> real list \<Rightarrow> real list \<Rightarrow> nat \<Rightarrow> real list" where
  "health_loop wear_rate temp vibration load n =
     fold (health_step wear_rate temp vibration load) [1..<n] (ones n)"

definition simulate_machine :: "nat list \<Rightarrow> nat \<Rightarrow> machine_draws \<Rightarrow> sensor_row list" where
  "simulate_machine ti m d =
     (let n = length ti;
          temp = temp_signal n d;
          vibration = vibration_signal n d;
          pressure = pressure_signal n d;
          load = load_signal n d;
          rpms = rpm_signal n d;
          hs = health_loop (base_wear_rate d) temp vibration load n
      in map (\<lambda>i. \<lparr> machine_id = m, timestamp = ti ! i, temp_c = temp ! i,
                     vibration_ms2 = vibration ! i, pressure_psi = pressure ! i,
                     load_pct = load ! i, rpm = rpms ! i, health_score = hs ! i \<rparr>)
           [0..<n])"

subsection \<open>The health-score loop in float64 arithmetic\<close>



definition stress_at_f64 :: "real \<Rightarrow> real \<Rightarrow> real \<Rightarrow> real" where
  \<comment> \<open>the accumulator \<open>stress\<close> of one loop iteration in float64: every \<open>+=\<close> rounds\<close>
  "stress_at_f64 tmp vib ld =
     (let stress = 0;
          stress = (if tmp > 65 then f64 (stress + f64 0.005) else stress);
          stress = (if tmp > 75 then f64 (stress + f64 0.010) else stress);
          stress = (if tmp > 85 then f64 (stress + f64 0.015) else stress);
          stress = (if vib > f64 1.8 then f64 (stress + f64 0.007) else stress);
          stress = (if vib > f64 2.2 then f64 (stress + f64 0.012) else stress);
          stress = (if vib > f64 2.6 then f64 (stress + f64 0.018) else stress);
          stress = (if ld > 80 then f64 (stress + f64 0.005) else stress);
          stress = (if ld > 90 then f64 (stress + f64 0.010) else stress)
      in stress)"

definition health_step_f64 ::
  "real \<Rightarrow> real list \<Rightarrow> real list \<Rightarrow> real list \<Rightarrow> nat \<Rightarrow> real list \<Rightarrow> real list" where
  "health_step_f64 wear_rate temp vibration load t hs =
     (let stress = stress_at_f64 (temp ! t) (vibration ! t) (load ! t);
          total_wear = f64 (wear_rate + stress)
      in hs[t := max 0 (f64 (hs ! (t - 1) - total_wear))])"


subsection \<open>All machines, and the failure events\<close>

definition all_data :: "nat \<Rightarrow> nat list \<Rightarrow> (nat \<Rightarrow> machine_draws) \<Rightarrow> sensor_row list" where
  \<comment> \<open>\<open>pd.concat\<close> of the frames of machines \<open>0, ..., n_machines - 1\<close>; \<open>ds m\<close> are the draws
      the generator hands to machine \<open>m\<close>\<close>
  "all_data n_machines ti ds = concat (map (\<lambda>m. simulate_machine ti m (ds m)) [0..<n_machines])"

definition sort_values :: "sensor_row list \<Rightarrow> sensor_row list" where
  \<comment> \<open>\<open>data.sort_values(["machine_id", "timestamp"])\<close>\<close>
  "sort_values df = sort_key (\<lambda>r. (machine_id r, timestamp r)) df"

definition HEALTH_THRESHOLD :: real where
  "HEALTH_THRESHOLD = 0.3"

fun groupby_shift :: "('k \<rightharpoonup> 'v) \<Rightarrow> ('k \<times> 'v) list \<Rightarrow> 'v option list" where
  \<comment> \<open>\<open>groupby(key)[col].shift(1)\<close> over the rows in table order: each row gets the value of
      the previous row of its own group, the first row of a group gets NaN (\<open>None\<close>);
      \<open>seen\<close> holds the latest value of every group met so far\<close>
  "groupby_shift seen [] = []"
| "groupby_shift seen ((k, v) # rest) = seen k # groupby_shift (seen(k \<mapsto> v)) rest"

definition fillna :: "'v \<Rightarrow> 'v option list \<Rightarrow> 'v list" where
  "fillna dflt col = map (\<lambda>x. case x of None \<Rightarrow> dflt | Some v \<Rightarrow> v) col"

definition low_health :: "sensor_row list \<Rightarrow> bool list" where
  "low_health df = map (\<lambda>r. health_score r < HEALTH_THRESHOLD) df"

definition low_health_prev :: "sensor_row list \<Rightarrow> bool list" where
  "low_health_prev df =
     fillna False (groupby_shift Map.empty (zip (map machine_id df) (low_health df)))"

definition failed_column :: "sensor_row list \<Rightarrow> nat list" where
  \<comment> \<open>\<open>data["failed"] = 0\<close>, then 1 where \<open>low_health == True\<close> and \<open>low_health_prev == False\<close>\<close>
  "failed_column df =
     map2 (\<lambda>low prev. if low = True \<and> prev = False then 1 else 0)
       (low_health df) (low_health_prev df)"

record labelled_row = sensor_row +
  failed :: nat

definition add_failed :: "sensor_row list \<Rightarrow> labelled_row list" where
  \<comment> \<open>the table with its new column \<open>failed\<close>; the two helper columns are dropped again\<close>
  "add_failed df = map2 (\<lambda>r f. sensor_row.extend r (labelled_row.fields f)) df (failed_column df)"

definition generate :: "nat \<Rightarrow> nat list \<Rightarrow> (nat \<Rightarrow> machine_draws) \<Rightarrow> labelled_row list" where
  \<comment> \<open>the table the script writes to \<open>synthetic_sensor_data.csv\<close>\<close>
  "generate n_machines ti ds = add_failed (sort_values (all_data n_machines ti ds))"

fun series_failed :: "bool \<Rightarrow> real list \<Rightarrow> nat list" where
  \<comment> \<open>the failure rule in the specification's words, on the health scores of one machine
      in the order of time: a row is marked when it is low and the row before it is not;
      \<open>prev_low\<close> is the flag of the row before (false before the first row)\<close>
  "series_failed prev_low [] = []"
| "series_failed prev_low (h # hs) =
     (if h < HEALTH_THRESHOLD \<and> \<not> prev_low then 1 else 0)
     # series_failed (h < HEALTH_THRESHOLD) hs"

definition rows_of :: "nat \<Rightarrow> ('a sensor_row_scheme) list \<Rightarrow> ('a sensor_row_scheme) list" where
  \<comment> \<open>the rows of machine \<open>m\<close>, in table order\<close>
  "rows_of m df = filter (\<lambda>r. machine_id r = m) df"

section \<open>The prediction service (api.py)\<close>

subsection \<open>Request values and Python's \<open>float()\<close>\<close>

datatype jvalue =
  JNull
  | JBool bool
  | JInt int
  | JNum real
  | JStr string
  | JArr "jvalue list"
  | JObj "(string \<times> jvalue) list"

datatype py_error = ValueError | TypeError | OverflowError

text \<open>
  A decoded JSON number is a Python \<open>int\<close> of any size (\<open>JInt\<close>) or a Python \<open>float\<close>
  (\<open>JNum\<close>). \<open>float()\<close> rounds an \<open>int\<close> to the nearest double, ties to even, and
  raises \<open>OverflowError\<close> when the result would exceed the largest double
  \<open>2 ^ 1024 - 2 ^ 971\<close>, that is from \<open>2 ^ 1024 - 2 ^ 970\<close> on.
\<close>

definition FLOAT_OVERFLOW :: int where
  "FLOAT_OVERFLOW = 2 ^ 1024 - 2 ^ 970"

type_synonym pydict = "(string \<times> jvalue) list"

definition dict_get :: "pydict \<Rightarrow> string \<Rightarrow> jvalue \<Rightarrow> jvalue" where
  \<comment> \<open>\<open>d.get(key, default)\<close>; a dict is an association list with distinct keys\<close>
  "dict_get d k dflt = (case map_of d k of None \<Rightarrow> dflt | Some v \<Rightarrow> v)"

fun py_float :: "(string \<Rightarrow> real option) \<Rightarrow> jvalue \<Rightarrow> py_error + real" where
  \<comment> \<open>the builtin \<open>float(v)\<close> on a decoded JSON value; \<open>parse\<close> is what it does on a \<open>str\<close>\<close>
  "py_float parse JNull = Inl TypeError"
| "py_float parse (JBool b) = Inr (if b then 1 else 0)"
| "py_float parse (JInt n) =
     (if \<bar>n\<bar> < FLOAT_OVERFLOW then Inr (of_int n) else Inl OverflowError)"
| "py_float parse (JNum x) = Inr x"
| "py_float parse (JStr s) = (case parse s of None \<Rightarrow> Inl ValueError | Some x \<Rightarrow> Inr x)"
| "py_float parse (JArr xs) = Inl TypeError"
| "py_float parse (JObj kvs) = Inl TypeError"

definition digit_val :: "char \<Rightarrow> nat option" where
  \<comment> \<open>the value of an ASCII digit (codes 48 to 57)\<close>
  "digit_val c =
     (let code = (of_char c :: nat)
      in if 48 \<le> code \<and> code \<le> 57 then Some (code - 48) else None)"

fun digits_val :: "nat \<Rightarrow> string \<Rightarrow> nat option" where
  "digits_val acc [] = Some acc"
| "digits_val acc (c # cs) =
     (case digit_val c of None \<Rightarrow> None | Some v \<Rightarrow> digits_val (10 * acc + v) cs)"

definition unsigned_decimal :: "string \<Rightarrow> real option" where
  "unsigned_decimal s =
     (let ip = takeWhile (\<lambda>c. c \<noteq> CHR ''.'') s;
          fp = drop (length ip + 1) s
      in if ip = [] \<and> fp = [] then None
         else case (digits_val 0 ip, digits_val 0 fp) of
                (Some a, Some b) \<Rightarrow> Some (real a + real b / 10 ^ length fp)
              | _ \<Rightarrow> None)"

definition decimal_literal :: "string \<Rightarrow> real option" where
  \<comment> \<open>\<open>float(s)\<close> on the plain decimal literals (sign, digits, point, digits); every other
      string is refused here, while Python also reads exponents, \<open>inf\<close>, \<open>nan\<close> and
      surrounding blanks. The theorems below hold for every parser; this one is an instance.\<close>
  "decimal_literal s =
     (case s of
        [] \<Rightarrow> None
      | c # cs \<Rightarrow>
          if c = CHR ''-'' then map_option uminus (unsigned_decimal cs)
          else if c = CHR ''+'' then unsigned_decimal cs
          else unsigned_decimal s)"

subsection \<open>The model artifact and the handler\<close>

record artifact =
  model :: "real list \<Rightarrow> real"
  feature_cols :: "string list"

record FeatureVector =
  features :: pydict

fun feature_vector ::
  "(string \<Rightarrow> real option) \<Rightarrow> pydict \<Rightarrow> string list \<Rightarrow> py_error + real list" where
  \<comment> \<open>\<open>[float(payload.features.get(col, 0.0)) for col in feature_cols]\<close>: the first
      conversion that raises ends the comprehension\<close>
  "feature_vector parse fs [] = Inr []"
| "feature_vector parse fs (col # cols) =
     (case py_float parse (dict_get fs col (JNum 0.0)) of
        Inl e \<Rightarrow> Inl e
      | Inr x \<Rightarrow>
          (case feature_vector parse fs cols of
             Inl e \<Rightarrow> Inl e
           | Inr xs \<Rightarrow> Inr (x # xs)))"

definition LOW_RISK :: string where
  "LOW_RISK = ''Low risk: continue normal operation, routine monitoring.''"

definition MODERATE_RISK :: string where
  "MODERATE_RISK = ''Moderate risk: schedule inspection in the next maintenance window.''"

definition HIGH_RISK :: string where
  "HIGH_RISK =
     ''High risk: schedule maintenance as soon as possible to avoid unplanned downtime.''"

definition recommendation_for :: "real \<Rightarrow> string" where
  "recommendation_for proba =
     (if proba < 0.3 then LOW_RISK
      else if proba < 0.7 then MODERATE_RISK
      else HIGH_RISK)"

definition py_round :: "real \<Rightarrow> nat \<Rightarrow> real" where
  \<comment> \<open>\<open>round(x, ndigits)\<close>: the nearest multiple of \<open>10 ** -ndigits\<close>, ties to even\<close>
  "py_round x ndigits = of_int (round_half_even (x * 10 ^ ndigits)) / 10 ^ ndigits"

definition predict_failure_24h ::
  "(string \<Rightarrow> real option) \<Rightarrow> artifact \<Rightarrow> FeatureVector \<Rightarrow> py_error + pydict" where
  \<comment> \<open>the handler of \<open>POST /predict_24h\<close>; \<open>model art x\<close> is \<open>model.predict_proba([x])[0, 1]\<close>\<close>
  "predict_failure_24h parse art payload =
     (case feature_vector parse (features payload) (feature_cols art) of
        Inl e \<Rightarrow> Inl e
      | Inr x \<Rightarrow>
          (let proba = model art x;
               recommendation = recommendation_for proba
           in Inr [(''failure_probability_24h'', JNum (py_round proba 3)),
                   (''recommendation'', JStr recommendation)]))"

definition float_number :: "jvalue \<Rightarrow> bool" where
  \<comment> \<open>a number that \<open>float()\<close> converts: every float, and every integer within the
      range of a double\<close>
  "float_number v =
     (case v of JNum x \<Rightarrow> True | JInt n \<Rightarrow> \<bar>n\<bar> < FLOAT_OVERFLOW | _ \<Rightarrow> False)"

definition number_value :: "jvalue \<Rightarrow> real" where
  "number_value v = (case v of JNum x \<Rightarrow> x | JInt n \<Rightarrow> of_int n | _ \<Rightarrow> 0)"

definition response_of :: "real \<Rightarrow> pydict" where
  \<comment> \<open>the response the specification describes for the classifier's probability \<open>p\<close>\<close>
  "response_of p =
     [(''failure_probability_24h'', JNum (py_round p 3)),
      (''recommendation'', JStr (recommendation_for p))]"

definition constant_classifier :: "real \<Rightarrow> real list \<Rightarrow> real" where
  \<comment> \<open>a classifier that answers \<open>p\<close> whatever the input; used in examples\<close>
  "constant_classifier p x = p"

subsection \<open>Example inputs\<close>

definition example_draws :: machine_draws where
  "example_draws =
     \<lparr> u_base_temp = 1 / 2, u_base_vibration = 1 / 2, u_base_pressure = 1 / 2,
       u_base_load = 1 / 2, u_base_rpm = 1 / 2, u_temp_drift = 1 / 2, u_vib_drift = 1 / 2,
       z_temp = (\<lambda>i. if i = 1 then 20 else 0), z_vib = (\<lambda>i. 0), z_pressure = (\<lambda>i. 0),
       z_load = (\<lambda>i. if i = 2 then 30 else 0), z_rpm = (\<lambda>i. - 100), u_wear = 0 \<rparr>"

definition example_row :: "nat \<Rightarrow> nat \<Rightarrow> real \<Rightarrow> sensor_row" where
  "example_row m ts h =
     \<lparr> machine_id = m, timestamp = ts, temp_c = 50, vibration_ms2 = 1, pressure_psi = 290,
       load_pct = 60, rpm = 1700, health_score = h \<rparr>"

definition example_table :: "sensor_row list" where
  "example_table =
     [example_row 1 0 1, example_row 0 0 1, example_row 0 10 0.5, example_row 1 10 0.2,
      example_row 0 20 0.25, example_row 1 20 0.1, example_row 0 30 0.1]"

section \<open>Properties of the generator\<close>

subsection \<open>The health-score loop\<close>

lemma length_health_step [simp]:
  "length (health_step w te vi lo t hs) = length hs"
  by (simp add: health_step_def Let_def)

lemma length_fold_health_step [simp]:
  "length (fold (health_step w te vi lo) ts hs) = length hs"
  by (induction ts arbitrary: hs) simp_all

lemma length_health_loop [simp]: "length (health_loop w te vi lo n) = n"
  by (simp add: health_loop_def ones_def)

lemma stress_at_closed:
  "stress_at tmp vib ld =
     (if tmp > 65 then 0.005 else 0) + (if tmp > 75 then 0.010 else 0)
     + (if tmp > 85 then 0.015 else 0)
     + (if vib > 1.8 then 0.007 else 0) + (if vib > 2.2 then 0.012 else 0)
     + (if vib > 2.6 then 0.018 else 0)
     + (if ld > 80 then 0.005 else 0) + (if ld > 90 then 0.010 else 0)"
  by (simp add: stress_at_def Let_def)

lemma stress_at_nonneg: "0 \<le> stress_at tmp vib ld"
  unfolding stress_at_closed by (intro add_nonneg_nonneg) simp_all

lemma health_step_nth:
  "t < length hs \<Longrightarrow>
   health_step w te vi lo t hs ! i =
     (if i = t then max 0 (hs ! (t - 1) - (w + stress_at (te ! t) (vi ! t) (lo ! t)))
      else hs ! i)"
  by (simp add: health_step_def Let_def)

lemma health_step_other: "i \<noteq> t \<Longrightarrow> health_step w te vi lo t hs ! i = hs ! i"
  by (simp add: health_step_def Let_def)

lemma fold_health_step_other:
  "i \<notin> set ts \<Longrightarrow> fold (health_step w te vi lo) ts hs ! i = hs ! i"
  by (induction ts arbitrary: hs) (auto simp: health_step_other)

lemma health_prefix_rec:
  assumes "k \<le> length hs" "0 < t" "t < k"
  shows "fold (health_step w te vi lo) [1..<k] hs ! t =
         max 0 (fold (health_step w te vi lo) [1..<k] hs ! (t - 1)
                - (w + stress_at (te ! t) (vi ! t) (lo ! t)))"
  using assms
proof (induction k)
  case 0
  then show ?case by simp
next
  case (Suc k)
  let ?H = "fold (health_step w te vi lo) [1..<k] hs"
  have k1: "1 \<le> k" using Suc.prems by simp
  have step: "fold (health_step w te vi lo) [1..<Suc k] hs = health_step w te vi lo k ?H"
    using k1 by simp
  have len: "k < length ?H" using Suc.prems by simp
  have prev: "health_step w te vi lo k ?H ! (t - 1) = ?H ! (t - 1)"
    using Suc.prems by (intro health_step_other) simp
  show ?case
  proof (cases "t = k")
    case True
    then show ?thesis using len prev by (simp only: step health_step_nth[OF len]) simp
  next
    case False
    then have "t < k" using Suc.prems by simp
    then have "?H ! t = max 0 (?H ! (t - 1) - (w + stress_at (te ! t) (vi ! t) (lo ! t)))"
      using Suc by simp
    then show ?thesis using False prev by (simp only: step health_step_other[OF False]) 
  qed
qed

lemma health_loop_rec:
  assumes "0 < t" "t < n"
  shows "health_loop w te vi lo n ! t =
         max 0 (health_loop w te vi lo n ! (t - 1) - (w + stress_at (te ! t) (vi ! t) (lo ! t)))"
  unfolding health_loop_def using assms by (intro health_prefix_rec) (simp_all add: ones_def)

lemma health_loop_0: "0 < n \<Longrightarrow> health_loop w te vi lo n ! 0 = 1"
  by (simp add: health_loop_def fold_health_step_other ones_def)

lemma length_linspace [simp]: "length (linspace a b n) = n"
  by (simp add: linspace_def Let_def)

lemma length_simulate_machine [simp]: "length (simulate_machine ti m d) = length ti"
  by (simp add: simulate_machine_def Let_def)

lemma load_signal_nth:
  "t < n \<Longrightarrow> load_signal n d ! t = min 110 (max (base_load d + 5 * z_load d t) 10)"
  by (simp add: load_signal_def clip_def scalar_add_def normal_def)

lemma rpm_signal_nth:
  "t < n \<Longrightarrow> rpm_signal n d ! t = min 2200 (max (base_rpm d + 40 * z_rpm d t) 800)"
  by (simp add: rpm_signal_def clip_def scalar_add_def normal_def)

lemma pressure_signal_nth:
  "t < n \<Longrightarrow> pressure_signal n d ! t = base_pressure d + 5 * z_pressure d t"
  by (simp add: pressure_signal_def scalar_add_def normal_def)

lemma temp_signal_nth:
  "t < n \<Longrightarrow> temp_signal n d ! t = base_temp d + temp_drift n d ! t + 1.5 * z_temp d t"
  by (simp add: temp_signal_def array_add_def scalar_add_def normal_def temp_drift_def)

lemma vibration_signal_nth:
  "t < n \<Longrightarrow>
   vibration_signal n d ! t = base_vibration d + vib_drift n d ! t + 0.2 * z_vib d t"
  by (simp add: vibration_signal_def array_add_def scalar_add_def normal_def vib_drift_def)

lemma simulate_machine_nth:
  "t < length ti \<Longrightarrow>
   simulate_machine ti m d ! t =
     \<lparr> machine_id = m, timestamp = ti ! t, temp_c = temp_signal (length ti) d ! t,
       vibration_ms2 = vibration_signal (length ti) d ! t,
       pressure_psi = pressure_signal (length ti) d ! t,
       load_pct = load_signal (length ti) d ! t, rpm = rpm_signal (length ti) d ! t,
       health_score =
         health_loop (base_wear_rate d) (temp_signal (length ti) d)
           (vibration_signal (length ti) d) (load_signal (length ti) d) (length ti) ! t \<rparr>"
  by (simp add: simulate_machine_def Let_def)

lemma row_health_rec:
  assumes "0 < t" "t < length ti"
  shows "health_score (simulate_machine ti m d ! t) =
         max 0 (health_score (simulate_machine ti m d ! (t - 1))
                - (base_wear_rate d
                   + stress_at (temp_c (simulate_machine ti m d ! t))
                       (vibration_ms2 (simulate_machine ti m d ! t))
                       (load_pct (simulate_machine ti m d ! t))))"
proof -
  have "t - 1 < length ti" using assms by simp
  then show ?thesis
    using assms by (simp add: simulate_machine_nth health_loop_rec)
qed

lemma row_health_0: "0 < length ti \<Longrightarrow> health_score (simulate_machine ti m d ! 0) = 1"
  by (simp add: simulate_machine_nth health_loop_0)

subsection \<open>A worked example: three time steps of one machine\<close>

lemma example_rows:
  "simulate_machine [0, 10, 20] 0 example_draws =
     [\<lparr>machine_id = 0, timestamp = 0, temp_c = 50, vibration_ms2 = 1,
        pressure_psi = 290, load_pct = 60, rpm = 800, health_score = 1\<rparr>,
      \<lparr>machine_id = 0, timestamp = 10, temp_c = 173 / 2, vibration_ms2 = 5 / 4,
        pressure_psi = 290, load_pct = 60, rpm = 800, health_score = 19397 / 20000\<rparr>,
      \<lparr>machine_id = 0, timestamp = 20, temp_c = 63, vibration_ms2 = 3 / 2,
        pressure_psi = 290, load_pct = 110, rpm = 800, health_score = 9547 / 10000\<rparr>]"
  by code_simp

subsection \<open>The claims about the health score\<close>

text \<open>
  Claim C1. For every machine and every time step \<open>t > 0\<close> of its series, the new health
  score is \<open>max 0\<close> of the previous health score minus the wear of the step, and the wear
  is the machine's base wear rate (fixed for the machine: it does not depend on \<open>t\<close>) plus
  the stress of the step. The stress is the sum of the increments that the step's own
  temperature, vibration and load trigger: 0.005, 0.010, 0.015 above 65, 75, 85 degrees;
  0.007, 0.012, 0.018 above 1.8, 2.2, 2.6; 0.005, 0.010 above 80, 90 percent. The increments
  of one sensor add up, so a reading above its highest threshold earns all of them.
\<close>

theorem health_score_recurrence:
  assumes "0 < t" and "t < length ti"
  shows "health_score (simulate_machine ti m d ! t) =
         max 0 (health_score (simulate_machine ti m d ! (t - 1))
                - (base_wear_rate d
                   + ((if temp_c (simulate_machine ti m d ! t) > 65 then 0.005 else 0)
                      + (if temp_c (simulate_machine ti m d ! t) > 75 then 0.010 else 0)
                      + (if temp_c (simulate_machine ti m d ! t) > 85 then 0.015 else 0)
                      + (if vibration_ms2 (simulate_machine ti m d ! t) > 1.8 then 0.007 else 0)
                      + (if vibration_ms2 (simulate_machine ti m d ! t) > 2.2 then 0.012 else 0)
                      + (if vibration_ms2 (simulate_machine ti m d ! t) > 2.6 then 0.018 else 0)
                      + (if load_pct (simulate_machine ti m d ! t) > 80 then 0.005 else 0)
                      + (if load_pct (simulate_machine ti m d ! t) > 90 then 0.010 else 0))))"
  using row_health_rec[OF assms, of m d] by (simp only: stress_at_closed)

theorem health_score_recurrence_witness:
  "(0::nat) < 1 \<and> 1 < length [0, 10, 20 :: nat]
   \<and> health_score (simulate_machine [0, 10, 20] 0 example_draws ! 1) = 19397 / 20000"
  using health_score_recurrence[of 1 "[0, 10, 20]" 0 example_draws]
  by (simp add: example_rows)

lemma base_wear_rate_nonneg: "0 \<le> u_wear d \<Longrightarrow> 0 \<le> base_wear_rate d"
  by (simp add: base_wear_rate_def uniform_def)

lemma row_health_nonneg:
  assumes "t < length ti"
  shows "0 \<le> health_score (simulate_machine ti m d ! t)"
proof (cases t)
  case 0
  then show ?thesis using assms by (simp add: row_health_0)
next
  case (Suc k)
  then have "0 < t" by simp
  from row_health_rec[OF this assms, of m d] show ?thesis by simp
qed

lemma row_health_step_le:
  assumes "0 \<le> u_wear d" and "0 < t" and "t < length ti"
  shows "health_score (simulate_machine ti m d ! t)
         \<le> health_score (simulate_machine ti m d ! (t - 1))"
proof -
  have prev: "0 \<le> health_score (simulate_machine ti m d ! (t - 1))"
    using assms by (intro row_health_nonneg) simp
  have wear: "0 \<le> base_wear_rate d
                 + stress_at (temp_c (simulate_machine ti m d ! t))
                     (vibration_ms2 (simulate_machine ti m d ! t))
                     (load_pct (simulate_machine ti m d ! t))"
    using base_wear_rate_nonneg[OF assms(1)] stress_at_nonneg by (intro add_nonneg_nonneg)
  show ?thesis
    using row_health_rec[OF assms(2,3), of m d] prev wear by simp
qed

lemma row_health_antimono:
  assumes "0 \<le> u_wear d" and "i \<le> j" and "j < length ti"
  shows "health_score (simulate_machine ti m d ! j) \<le> health_score (simulate_machine ti m d ! i)"
  using assms(2,3)
proof (induction j)
  case 0
  then show ?case by simp
next
  case (Suc j)
  show ?case
  proof (cases "i = Suc j")
    case True
    then show ?thesis by simp
  next
    case False
    then have ij: "i \<le> j" using Suc.prems by simp
    have "health_score (simulate_machine ti m d ! Suc j)
          \<le> health_score (simulate_machine ti m d ! j)"
      using row_health_step_le[OF assms(1), of "Suc j" ti m] Suc.prems by simp
    also have "\<dots> \<le> health_score (simulate_machine ti m d ! i)"
      using Suc.IH[OF ij] Suc.prems by simp
    finally show ?thesis .
  qed
qed

text \<open>
  Claim C3. For every machine, the health score of its first row (time step 0) is exactly
  1, the series never increases (the score at step \<open>t\<close> is at most the score at every
  earlier step \<open>i\<close>), and every score lies between 0 and 1. The base wear rate is drawn by
  \<open>np.random.uniform(0.00015, 0.0003)\<close>, whose unit sample lies between 0 and 1.
\<close>

theorem health_score_start_monotone_bounded:
  assumes "0 \<le> u_wear d" and "u_wear d < 1" and "t < length ti"
  shows "health_score (simulate_machine ti m d ! 0) = 1
         \<and> (\<forall>i. i \<le> t \<longrightarrow>
               health_score (simulate_machine ti m d ! t)
               \<le> health_score (simulate_machine ti m d ! i))
         \<and> 0 \<le> health_score (simulate_machine ti m d ! t)
         \<and> health_score (simulate_machine ti m d ! t) \<le> 1"
proof -
  have pos: "0 < length ti" using assms(3) by (cases ti) simp_all
  have first: "health_score (simulate_machine ti m d ! 0) = 1"
    using pos by (rule row_health_0)
  have mono: "\<forall>i. i \<le> t \<longrightarrow>
               health_score (simulate_machine ti m d ! t)
               \<le> health_score (simulate_machine ti m d ! i)"
    using row_health_antimono[OF assms(1) _ assms(3)] by blast
  have "health_score (simulate_machine ti m d ! t) \<le> health_score (simulate_machine ti m d ! 0)"
    using mono by simp
  then have le1: "health_score (simulate_machine ti m d ! t) \<le> 1" using first by simp
  show ?thesis using first mono le1 row_health_nonneg[OF assms(3)] by simp
qed

theorem health_score_start_monotone_bounded_witness:
  "(0::real) \<le> u_wear example_draws \<and> u_wear example_draws < 1 \<and> (2::nat) < length [0, 10, 20 :: nat]
   \<and> health_score (simulate_machine [0, 10, 20] 0 example_draws ! 0) = 1
   \<and> health_score (simulate_machine [0, 10, 20] 0 example_draws ! 2)
       < health_score (simulate_machine [0, 10, 20] 0 example_draws ! 1)
   \<and> health_score (simulate_machine [0, 10, 20] 0 example_draws ! 1)
       < health_score (simulate_machine [0, 10, 20] 0 example_draws ! 0)
   \<and> 0 \<le> health_score (simulate_machine [0, 10, 20] 0 example_draws ! 2)
   \<and> health_score (simulate_machine [0, 10, 20] 0 example_draws ! 2) \<le> 1"
proof -
  have u: "u_wear example_draws = 0" by (simp add: example_draws_def)
  show ?thesis
    using health_score_start_monotone_bounded[of example_draws 2 "[0, 10, 20]" 0]
    by (simp add: example_rows u)
qed

subsection \<open>The health-score loop in float64 arithmetic\<close>

lemma round_half_even_near: "\<bar>of_int (round_half_even x) - x\<bar> \<le> 1 / 2"
  unfolding round_half_even_def Let_def by (auto simp: abs_if) linarith+




lemma f64_zero [simp]: "f64 0 = 0"
  by (simp add: f64_def)









































lemma length_health_step_f64 [simp]:
  "length (health_step_f64 w te vi lo t hs) = length hs"
  by (simp add: health_step_f64_def Let_def)

lemma length_fold_health_step_f64 [simp]:
  "length (fold (health_step_f64 w te vi lo) ts hs) = length hs"
  by (induction ts arbitrary: hs) simp_all

















subsection \<open>The sensor signals\<close>

lemma temp_noise_reaches:
  assumes "t < length ti"
  shows "\<exists>z. temp_c (simulate_machine ti m (d\<lparr>z_temp := z\<rparr>) ! t) = x"
proof -
  let ?z = "\<lambda>i::nat. (x - base_temp d - temp_drift (length ti) d ! t) / 1.5"
  have "temp_c (simulate_machine ti m (d\<lparr>z_temp := ?z\<rparr>) ! t) = x"
    using assms
    by (simp add: simulate_machine_nth temp_signal_nth base_temp_def temp_drift_def
        field_simps)
  then show ?thesis by blast
qed

lemma vibration_noise_reaches:
  assumes "t < length ti"
  shows "\<exists>z. vibration_ms2 (simulate_machine ti m (d\<lparr>z_vib := z\<rparr>) ! t) = x"
proof -
  let ?z = "\<lambda>i::nat. (x - base_vibration d - vib_drift (length ti) d ! t) / 0.2"
  have "vibration_ms2 (simulate_machine ti m (d\<lparr>z_vib := ?z\<rparr>) ! t) = x"
    using assms
    by (simp add: simulate_machine_nth vibration_signal_nth base_vibration_def vib_drift_def
        field_simps)
  then show ?thesis by blast
qed

lemma pressure_noise_reaches:
  assumes "t < length ti"
  shows "\<exists>z. pressure_psi (simulate_machine ti m (d\<lparr>z_pressure := z\<rparr>) ! t) = x"
proof -
  let ?z = "\<lambda>i::nat. (x - base_pressure d) / 5"
  have "pressure_psi (simulate_machine ti m (d\<lparr>z_pressure := ?z\<rparr>) ! t) = x"
    using assms
    by (simp add: simulate_machine_nth pressure_signal_nth base_pressure_def field_simps)
  then show ?thesis by blast
qed

text \<open>
  Claim C8. In every row of every machine, \<open>load_pct\<close> lies between 10 and 110 and
  \<open>rpm\<close> between 800 and 2200. Temperature and vibration are baseline plus drift plus
  noise, pressure is baseline plus noise, with no clamp: whatever the baseline and the
  drift, the noise can bring each of the three to any real value.
\<close>

theorem load_rpm_clamped_others_free:
  assumes "t < length ti"
  shows "10 \<le> load_pct (simulate_machine ti m d ! t)
         \<and> load_pct (simulate_machine ti m d ! t) \<le> 110
         \<and> 800 \<le> rpm (simulate_machine ti m d ! t)
         \<and> rpm (simulate_machine ti m d ! t) \<le> 2200
         \<and> temp_c (simulate_machine ti m d ! t)
             = base_temp d + temp_drift (length ti) d ! t + 1.5 * z_temp d t
         \<and> vibration_ms2 (simulate_machine ti m d ! t)
             = base_vibration d + vib_drift (length ti) d ! t + 0.2 * z_vib d t
         \<and> pressure_psi (simulate_machine ti m d ! t) = base_pressure d + 5 * z_pressure d t
         \<and> (\<forall>x. \<exists>z. temp_c (simulate_machine ti m (d\<lparr>z_temp := z\<rparr>) ! t) = x)
         \<and> (\<forall>x. \<exists>z. vibration_ms2 (simulate_machine ti m (d\<lparr>z_vib := z\<rparr>) ! t) = x)
         \<and> (\<forall>x. \<exists>z. pressure_psi (simulate_machine ti m (d\<lparr>z_pressure := z\<rparr>) ! t) = x)"
proof -
  have clamped: "10 \<le> load_pct (simulate_machine ti m d ! t)
         \<and> load_pct (simulate_machine ti m d ! t) \<le> 110
         \<and> 800 \<le> rpm (simulate_machine ti m d ! t)
         \<and> rpm (simulate_machine ti m d ! t) \<le> 2200"
    using assms by (simp add: simulate_machine_nth load_signal_nth rpm_signal_nth)
  have free: "temp_c (simulate_machine ti m d ! t)
             = base_temp d + temp_drift (length ti) d ! t + 1.5 * z_temp d t
         \<and> vibration_ms2 (simulate_machine ti m d ! t)
             = base_vibration d + vib_drift (length ti) d ! t + 0.2 * z_vib d t
         \<and> pressure_psi (simulate_machine ti m d ! t) = base_pressure d + 5 * z_pressure d t"
    using assms
    by (simp add: simulate_machine_nth temp_signal_nth vibration_signal_nth pressure_signal_nth)
  show ?thesis
    using clamped free temp_noise_reaches[OF assms] vibration_noise_reaches[OF assms]
      pressure_noise_reaches[OF assms]
    by blast
qed

theorem load_rpm_clamped_others_free_witness:
  "(2::nat) < length [0, 10, 20 :: nat]
   \<and> load_pct (simulate_machine [0, 10, 20] 0 example_draws ! 2) = 110
   \<and> rpm (simulate_machine [0, 10, 20] 0 example_draws ! 2) = 800
   \<and> temp_c (simulate_machine [0, 10, 20] 0 example_draws ! 1) = 86.5"
  using load_rpm_clamped_others_free[of 2 "[0, 10, 20]" 0 example_draws]
  by (simp add: example_rows)

subsection \<open>The failure pass, machine by machine\<close>

lemma length_groupby_shift [simp]: "length (groupby_shift seen kvs) = length kvs"
  by (induction kvs arbitrary: seen) auto

lemma length_failed_column [simp]: "length (failed_column df) = length df"
  by (simp add: failed_column_def low_health_def low_health_prev_def fillna_def)

lemma length_add_failed [simp]: "length (add_failed df) = length df"
  by (simp add: add_failed_def)

lemma group_pass:
  "map snd (filter (\<lambda>(r, x). machine_id r = m)
      (zip df (map2 (\<lambda>low prev. if low = True \<and> prev = False then 1 else 0)
                 (low_health df)
                 (fillna False (groupby_shift seen (zip (map machine_id df) (low_health df)))))))
   = series_failed (case seen m of None \<Rightarrow> False | Some b \<Rightarrow> b)
       (map health_score (filter (\<lambda>r. machine_id r = m) df))"
proof (induction df arbitrary: seen)
  case Nil
  then show ?case by (simp add: low_health_def fillna_def)
next
  case (Cons r df)
  have IH: "map snd (filter (\<lambda>(r, x). machine_id r = m)
      (zip df (map2 (\<lambda>low prev. if low = True \<and> prev = False then 1 else 0)
                 (low_health df)
                 (fillna False (groupby_shift (seen(machine_id r \<mapsto> health_score r < HEALTH_THRESHOLD))
                     (zip (map machine_id df) (low_health df)))))))
   = series_failed (case (seen(machine_id r \<mapsto> health_score r < HEALTH_THRESHOLD)) m of None \<Rightarrow> False | Some b \<Rightarrow> b)
       (map health_score (filter (\<lambda>r. machine_id r = m) df))"
    by (rule Cons.IH)
  have unfold: "low_health (r # df) = (health_score r < HEALTH_THRESHOLD) # low_health df"
    by (simp add: low_health_def)
  show ?case
  proof (cases "machine_id r = m")
    case True
    then show ?thesis using IH by (simp add: unfold fillna_def split: option.splits)
  next
    case False
    then show ?thesis using IH by (simp add: unfold fillna_def)
  qed
qed

lemma add_failed_zip:
  "add_failed df = map (\<lambda>(r, f). sensor_row.extend r (labelled_row.fields f)) (zip df (failed_column df))"
  by (simp add: add_failed_def)

lemma machine_id_extend [simp]:
  "machine_id (sensor_row.extend r (labelled_row.fields f)) = machine_id r"
  by (simp add: sensor_row.extend_def sensor_row.defs labelled_row.defs)

lemma health_score_extend [simp]:
  "health_score (sensor_row.extend r (labelled_row.fields f)) = health_score r"
  by (simp add: sensor_row.extend_def sensor_row.defs labelled_row.defs)

lemma timestamp_extend [simp]:
  "timestamp (sensor_row.extend r (labelled_row.fields f)) = timestamp r"
  by (simp add: sensor_row.extend_def sensor_row.defs labelled_row.defs)

lemma failed_extend [simp]:
  "failed (sensor_row.extend r (labelled_row.fields f)) = f"
  by (simp add: sensor_row.extend_def sensor_row.defs labelled_row.defs)

lemma rows_of_add_failed:
  "rows_of m (add_failed df) =
     map (\<lambda>(r, f). sensor_row.extend r (labelled_row.fields f))
       (filter (\<lambda>(r, x). machine_id r = m) (zip df (failed_column df)))"
  by (simp add: rows_of_def add_failed_zip filter_map comp_def case_prod_unfold)

lemma failed_rows_of:
  "map failed (rows_of m (add_failed df)) = series_failed False (map health_score (rows_of m df))"
proof -
  have "map failed (rows_of m (add_failed df))
        = map snd (filter (\<lambda>(r, x). machine_id r = m) (zip df (failed_column df)))"
    by (simp add: rows_of_add_failed case_prod_unfold)
  also have "\<dots> = series_failed False (map health_score (rows_of m df))"
    unfolding failed_column_def low_health_prev_def rows_of_def
    using group_pass[of m df Map.empty] by simp
  finally show ?thesis .
qed

lemma timestamp_rows_of:
  "map timestamp (rows_of m (add_failed df)) = map timestamp (rows_of m df)"
proof -
  have "map (\<lambda>p. timestamp (fst p)) (filter (\<lambda>p. machine_id (fst p) = m) (zip df fs))
        = map timestamp (filter (\<lambda>r. machine_id r = m) df)"
    if "length fs = length df" for fs :: "nat list"
    using that
  proof (induction df arbitrary: fs)
    case Nil
    then show ?case by simp
  next
    case (Cons r df)
    then obtain f fs' where "fs = f # fs'" by (cases fs) auto
    then show ?case using Cons by simp
  qed
  from this[of "failed_column df"]
  have pairs: "map (\<lambda>p. timestamp (fst p))
                 (filter (\<lambda>p. machine_id (fst p) = m) (zip df (failed_column df)))
               = map timestamp (rows_of m df)"
    by (simp add: rows_of_def)
  have "map timestamp (rows_of m (add_failed df))
        = map (\<lambda>p. timestamp (fst p))
            (filter (\<lambda>p. machine_id (fst p) = m) (zip df (failed_column df)))"
    by (simp add: rows_of_add_failed case_prod_unfold comp_def)
  then show ?thesis using pairs by simp
qed

lemma health_rows_of:
  "map health_score (rows_of m (add_failed df)) = map health_score (rows_of m df)"
proof -
  have "map (\<lambda>p. health_score (fst p)) (filter (\<lambda>p. machine_id (fst p) = m) (zip df fs))
        = map health_score (filter (\<lambda>r. machine_id r = m) df)"
    if "length fs = length df" for fs :: "nat list"
    using that
  proof (induction df arbitrary: fs)
    case Nil
    then show ?case by simp
  next
    case (Cons r df)
    then obtain f fs' where "fs = f # fs'" by (cases fs) auto
    then show ?case using Cons by simp
  qed
  from this[of "failed_column df"]
  have pairs: "map (\<lambda>p. health_score (fst p))
                 (filter (\<lambda>p. machine_id (fst p) = m) (zip df (failed_column df)))
               = map health_score (rows_of m df)"
    by (simp add: rows_of_def)
  have "map health_score (rows_of m (add_failed df))
        = map (\<lambda>p. health_score (fst p))
            (filter (\<lambda>p. machine_id (fst p) = m) (zip df (failed_column df)))"
    by (simp add: rows_of_add_failed case_prod_unfold comp_def)
  then show ?thesis using pairs by simp
qed

lemma length_series_failed [simp]: "length (series_failed p hs) = length hs"
  by (induction hs arbitrary: p) auto

lemma series_failed_nth:
  "j < length hs \<Longrightarrow>
   series_failed p hs ! j =
     (if hs ! j < HEALTH_THRESHOLD \<and> \<not> (if j = 0 then p else hs ! (j - 1) < HEALTH_THRESHOLD)
      then 1 else 0)"
proof (induction hs arbitrary: p j)
  case Nil
  then show ?case by simp
next
  case (Cons h hs)
  show ?case
  proof (cases j)
    case 0
    then show ?thesis by simp
  next
    case (Suc k)
    then have "k < length hs" using Cons.prems by simp
    from Cons.IH[OF this, of "h < HEALTH_THRESHOLD"] show ?thesis
      using Suc by (cases k) simp_all
  qed
qed

lemma series_failed_all_low:
  "\<forall>h\<in>set hs. h < HEALTH_THRESHOLD \<Longrightarrow> filter (\<lambda>f. f = 1) (series_failed True hs) = []"
  by (induction hs) auto

lemma series_failed_monotone:
  "sorted_wrt (\<ge>) hs \<Longrightarrow>
   length (filter (\<lambda>f. f = 1) (series_failed False hs))
     = (if \<exists>h\<in>set hs. h < HEALTH_THRESHOLD then 1 else 0)"
proof (induction hs)
  case Nil
  then show ?case by simp
next
  case (Cons h hs)
  show ?case
  proof (cases "h < HEALTH_THRESHOLD")
    case True
    then have "\<forall>x\<in>set hs. x < HEALTH_THRESHOLD" using Cons.prems by auto
    from series_failed_all_low[OF this] show ?thesis using True by simp
  next
    case False
    then show ?thesis using Cons by auto
  qed
qed

lemma sorted_rows_of_sort_values:
  "sorted (map timestamp (rows_of m (sort_values df)))"
proof -
  let ?key = "\<lambda>r::sensor_row. (machine_id r, timestamp r)"
  have "sorted (map ?key (sort_values df))" by (simp add: sort_values_def)
  then have "sorted (map ?key (rows_of m (sort_values df)))"
    unfolding rows_of_def by (rule sorted_filter)
  then have "sorted_wrt (\<lambda>x y. ?key x \<le> ?key y) (rows_of m (sort_values df))"
    by (simp add: sorted_map)
  then have "sorted_wrt (\<lambda>x y. timestamp x \<le> timestamp y) (rows_of m (sort_values df))"
    by (rule sorted_wrt_mono_rel[rotated]) (auto simp: rows_of_def)
  then show ?thesis by (simp add: sorted_map)
qed

lemma example_table_failed:
  "map (\<lambda>r. (machine_id r, timestamp r, health_score r, failed r))
     (add_failed (sort_values example_table))
   = [(0, 0, 1, 0), (0, 10, 1 / 2, 0), (0, 20, 1 / 4, 1), (0, 30, 1 / 10, 0),
      (1, 0, 1, 0), (1, 10, 1 / 5, 1), (1, 20, 1 / 10, 0)]"
  by code_simp

lemma example_table_machine_0:
  "map (\<lambda>r. (timestamp r, health_score r, failed r))
     (rows_of 0 (add_failed (sort_values example_table)))
   = [(0, 1, 0), (10, 1 / 2, 0), (20, 1 / 4, 1), (30, 1 / 10, 0)]"
  by code_simp

text \<open>
  Claim C2. In the final table (the concatenated frames, sorted by machine and timestamp,
  with the column \<open>failed\<close> added), the rows of one machine stand in the order of their
  timestamps, and \<open>failed\<close> is 1 exactly on the rows whose health score is below 0.3 while
  the row before it in the machine's series has a health score of at least 0.3, the first
  row of a machine counting as preceded by a row that is not low. It is 0 on every other
  row.
\<close>

theorem failed_exactly_at_crossings:
  assumes "j < length (rows_of m (add_failed (sort_values df)))"
  shows "sorted (map timestamp (rows_of m (add_failed (sort_values df))))
         \<and> failed (rows_of m (add_failed (sort_values df)) ! j) =
             (if health_score (rows_of m (add_failed (sort_values df)) ! j) < 0.3
                 \<and> (j = 0 \<or> 0.3 \<le> health_score (rows_of m (add_failed (sort_values df)) ! (j - 1)))
              then 1 else 0)"
proof -
  let ?rows = "rows_of m (add_failed (sort_values df))"
  let ?hs = "map health_score (rows_of m (sort_values df))"
  have hs: "map health_score ?rows = ?hs" by (rule health_rows_of)
  have ts: "map timestamp ?rows = map timestamp (rows_of m (sort_values df))"
    by (rule timestamp_rows_of)
  have len: "length ?rows = length ?hs" using hs by (metis length_map)
  have j: "j < length ?hs" using assms len by simp
  have "failed (?rows ! j) = map failed ?rows ! j" using assms by simp
  also have "\<dots> = series_failed False ?hs ! j" by (simp only: failed_rows_of)
  also have "\<dots> = (if ?hs ! j < HEALTH_THRESHOLD
                        \<and> \<not> (if j = 0 then False else ?hs ! (j - 1) < HEALTH_THRESHOLD)
                      then 1 else 0)"
    using j by (rule series_failed_nth)
  finally have f: "failed (?rows ! j) =
      (if ?hs ! j < HEALTH_THRESHOLD
          \<and> \<not> (if j = 0 then False else ?hs ! (j - 1) < HEALTH_THRESHOLD)
       then 1 else 0)" .
  have hj: "?hs ! j = health_score (?rows ! j)"
    using assms hs by (metis nth_map)
  have hp: "?hs ! (j - 1) = health_score (?rows ! (j - 1))"
  proof -
    have "j - 1 < length ?rows" using assms by simp
    then show ?thesis using hs by (metis nth_map)
  qed
  have "failed (?rows ! j) =
             (if health_score (?rows ! j) < 0.3
                 \<and> (j = 0 \<or> 0.3 \<le> health_score (?rows ! (j - 1)))
              then 1 else 0)"
    unfolding f hj hp HEALTH_THRESHOLD_def by auto
  moreover have "sorted (map timestamp ?rows)"
    unfolding ts by (rule sorted_rows_of_sort_values)
  ultimately show ?thesis by simp
qed

theorem failed_exactly_at_crossings_witness:
  "(2::nat) < length (rows_of 0 (add_failed (sort_values example_table)))
   \<and> map (\<lambda>r. (timestamp r, health_score r, failed r))
        (rows_of 0 (add_failed (sort_values example_table)))
      = [(0, 1, 0), (10, 1 / 2, 0), (20, 1 / 4, 1), (30, 1 / 10, 0)]
   \<and> failed (rows_of 0 (add_failed (sort_values example_table)) ! 2) = 1"
proof -
  have len: "length (rows_of 0 (add_failed (sort_values example_table))) = 4"
    using arg_cong[OF example_table_machine_0, of length] by simp
  have h2: "health_score (rows_of 0 (add_failed (sort_values example_table)) ! 2) = 1 / 4"
    using arg_cong[OF example_table_machine_0, of "\<lambda>xs. fst (snd (xs ! 2))"] len by simp
  have h1: "health_score (rows_of 0 (add_failed (sort_values example_table)) ! 1) = 1 / 2"
    using arg_cong[OF example_table_machine_0, of "\<lambda>xs. fst (snd (xs ! 1))"] len by simp
  show ?thesis
    using failed_exactly_at_crossings[of 2 0 example_table] len h1 h2 example_table_machine_0
    by simp
qed

subsection \<open>The machines of the program's own time grid\<close>

lemma machine_id_simulate_machine:
  "r \<in> set (simulate_machine ti k d) \<Longrightarrow> machine_id r = k"
  by (auto simp: simulate_machine_def Let_def)

lemma rows_of_simulate_machine:
  "rows_of m (simulate_machine ti k d) = (if k = m then simulate_machine ti k d else [])"
proof (cases "k = m")
  case True
  then have "\<forall>r\<in>set (simulate_machine ti k d). machine_id r = m"
    using machine_id_simulate_machine by blast
  then show ?thesis using True unfolding rows_of_def by simp
next
  case False
  then have "\<forall>r\<in>set (simulate_machine ti k d). \<not> machine_id r = m"
    using machine_id_simulate_machine by blast
  then show ?thesis using False unfolding rows_of_def by simp
qed

lemma rows_of_all_data:
  "rows_of m (all_data n ti ds) = (if m < n then simulate_machine ti m (ds m) else [])"
proof (induction n)
  case 0
  then show ?case by (simp add: all_data_def rows_of_def)
next
  case (Suc n)
  have "all_data (Suc n) ti ds = all_data n ti ds @ simulate_machine ti n (ds n)"
    by (simp add: all_data_def)
  then have "rows_of m (all_data (Suc n) ti ds)
             = rows_of m (all_data n ti ds) @ rows_of m (simulate_machine ti n (ds n))"
    by (simp add: rows_of_def)
  then show ?case using Suc by (auto simp: rows_of_simulate_machine)
qed

lemma keys_simulate_machine:
  "map (\<lambda>r. (machine_id r, timestamp r)) (simulate_machine ti m d) = map (Pair m) ti"
  by (rule nth_equalityI) (simp_all add: simulate_machine_nth)

lemma sorted_grid: "sorted (map (\<lambda>i::nat. start + i * freq) [0..<n])"
  by (induction n) (auto simp: sorted_append)

lemma sorted_date_range: "sorted (date_range start stop freq)"
  unfolding date_range_def by (rule sorted_grid)

lemma length_time_index: "length time_index = 8641"
  by (simp add: time_index_def date_range_def N_DAYS_def FREQ_def)

lemma N_STEPS_value: "N_STEPS = 8641"
  by (simp add: N_STEPS_def length_time_index)

lemma sort_values_simulate_machine:
  assumes "sorted ti"
  shows "sort_values (simulate_machine ti m d) = simulate_machine ti m d"
proof -
  have "sorted (map (Pair m) ti)"
    using assms by (simp add: sorted_map sorted_wrt_mono_rel[of ti "(\<le>)"])
  then show ?thesis
    unfolding sort_values_def by (intro sort_key_id_if_sorted) (simp add: keys_simulate_machine)
qed

lemma rows_of_sorted_all_data:
  assumes "sorted ti" and "m < n"
  shows "rows_of m (sort_values (all_data n ti ds)) = simulate_machine ti m (ds m)"
proof -
  have "rows_of m (sort_values (all_data n ti ds)) = sort_values (rows_of m (all_data n ti ds))"
    by (simp add: rows_of_def sort_values_def filter_sort)
  then show ?thesis
    using assms by (simp add: rows_of_all_data sort_values_simulate_machine)
qed

lemma base_wear_rate_min: "0 \<le> u_wear d \<Longrightarrow> 0.00015 \<le> base_wear_rate d"
  by (simp add: base_wear_rate_def uniform_def)

lemma decay_step:
  fixes h w c :: real
  assumes "0 \<le> c" and "c \<le> w" and "h \<le> max 0 (1 - c * real t)"
  shows "max 0 (h - w) \<le> max 0 (1 - c * real (Suc t))"
proof -
  have "h - w \<le> max 0 (1 - c * real t) - c" using assms by linarith
  also have "\<dots> \<le> max 0 (1 - c * real (Suc t))"
    using assms(1) by (simp add: max_def algebra_simps)
  finally show ?thesis by simp
qed

lemma row_health_decay:
  assumes "0 \<le> u_wear d" and "t < length ti"
  shows "health_score (simulate_machine ti m d ! t) \<le> max 0 (1 - 0.00015 * real t)"
  using assms(2)
proof (induction t)
  case 0
  then show ?case by (simp add: row_health_0)
next
  case (Suc t)
  let ?w = "base_wear_rate d
            + stress_at (temp_c (simulate_machine ti m d ! Suc t))
                (vibration_ms2 (simulate_machine ti m d ! Suc t))
                (load_pct (simulate_machine ti m d ! Suc t))"
  have w: "0.00015 \<le> ?w"
    using base_wear_rate_min[OF assms(1)]
      stress_at_nonneg[of "temp_c (simulate_machine ti m d ! Suc t)"
        "vibration_ms2 (simulate_machine ti m d ! Suc t)"
        "load_pct (simulate_machine ti m d ! Suc t)"]
    by linarith
  have prev: "health_score (simulate_machine ti m d ! t) \<le> max 0 (1 - 0.00015 * real t)"
    using Suc by simp
  have rec: "health_score (simulate_machine ti m d ! Suc t)
             = max 0 (health_score (simulate_machine ti m d ! t) - ?w)"
    using row_health_rec[of "Suc t" ti m d] Suc.prems by simp
  show ?case unfolding rec using w prev by (intro decay_step) simp_all
qed

lemma failed_count_monotone:
  assumes "sorted_wrt (\<ge>) (map health_score (rows_of m df))"
  shows "length (filter (\<lambda>r. failed r = 1) (rows_of m (add_failed df)))
         = (if \<exists>r\<in>set (rows_of m df). health_score r < HEALTH_THRESHOLD then 1 else 0)"
proof -
  let ?hs = "map health_score (rows_of m df)"
  have "length (filter (\<lambda>r. failed r = 1) (rows_of m (add_failed df)))
        = length (filter (\<lambda>f. f = 1) (map failed (rows_of m (add_failed df))))"
    by (simp add: filter_map comp_def)
  also have "\<dots> = length (filter (\<lambda>f. f = 1) (series_failed False ?hs))"
    by (simp only: failed_rows_of)
  also have "\<dots> = (if \<exists>h\<in>set ?hs. h < HEALTH_THRESHOLD then 1 else 0)"
    using assms by (rule series_failed_monotone)
  also have "\<dots> = (if \<exists>r\<in>set (rows_of m df). health_score r < HEALTH_THRESHOLD then 1 else 0)"
    by simp
  finally show ?thesis .
qed

lemma simulate_machine_monotone:
  assumes "0 \<le> u_wear d"
  shows "sorted_wrt (\<ge>) (map health_score (simulate_machine ti m d))"
  unfolding sorted_wrt_iff_nth_less
proof (intro allI impI)
  fix i j
  assume ij: "i < j" and j: "j < length (map health_score (simulate_machine ti m d))"
  then have "j < length ti" by simp
  from row_health_antimono[OF assms _ this, of i m] ij j
  show "map health_score (simulate_machine ti m d) ! j
        \<le> map health_score (simulate_machine ti m d) ! i"
    by simp
qed

lemma simulate_machine_gets_low:
  assumes "0 \<le> u_wear d" and "4668 \<le> length ti"
  shows "\<exists>r\<in>set (simulate_machine ti m d). health_score r < HEALTH_THRESHOLD"
proof -
  have t: "4667 < length ti" using assms(2) by simp
  have "health_score (simulate_machine ti m d ! 4667) \<le> max 0 (1 - 0.00015 * real (4667::nat))"
    using assms(1) t by (rule row_health_decay)
  then have "health_score (simulate_machine ti m d ! 4667) < HEALTH_THRESHOLD"
    by (simp add: HEALTH_THRESHOLD_def)
  moreover have "simulate_machine ti m d ! 4667 \<in> set (simulate_machine ti m d)"
    using t by (intro nth_mem) simp
  ultimately show ?thesis by blast
qed

lemma generated_machine_fails_once:
  assumes "sorted ti" and "k < n" and "0 \<le> u_wear (ds k)" and "4668 \<le> length ti"
  shows "sorted_wrt (\<ge>) (map health_score (rows_of k (generate n ti ds)))
         \<and> length (filter (\<lambda>r. failed r = 1) (rows_of k (generate n ti ds))) = 1"
proof -
  have rows: "rows_of k (sort_values (all_data n ti ds)) = simulate_machine ti k (ds k)"
    using assms(1,2) by (rule rows_of_sorted_all_data)
  have mono: "sorted_wrt (\<ge>) (map health_score (rows_of k (sort_values (all_data n ti ds))))"
    unfolding rows using assms(3) by (rule simulate_machine_monotone)
  have low: "\<exists>r\<in>set (rows_of k (sort_values (all_data n ti ds))).
               health_score r < HEALTH_THRESHOLD"
    unfolding rows using assms(3,4) by (rule simulate_machine_gets_low)
  have "length (filter (\<lambda>r. failed r = 1) (rows_of k (generate n ti ds))) = 1"
    unfolding generate_def using failed_count_monotone[OF mono] low by simp
  moreover have "sorted_wrt (\<ge>) (map health_score (rows_of k (generate n ti ds)))"
    unfolding generate_def health_rows_of by (rule mono)
  ultimately show ?thesis by simp
qed

lemma sorted_time_index: "sorted time_index"
  unfolding time_index_def by (rule sorted_date_range)

text \<open>
  Claim C7. When the health scores of a machine's rows never increase along its series,
  the pass marks at most one row of the machine with \<open>failed = 1\<close>, and exactly one when
  the machine gets below the threshold (from where, never increasing, it does not
  recover). Every machine the program simulates is such a machine: on the program's own
  time grid (8641 steps, with a base wear rate of at least 0.00015 per step) its series
  never increases and ends below the threshold, so it has exactly one failure event.
\<close>

theorem monotone_series_fails_once:
  "(sorted_wrt (\<ge>) (map health_score (rows_of m (add_failed (sort_values df)))) \<longrightarrow>
      length (filter (\<lambda>r. failed r = 1) (rows_of m (add_failed (sort_values df)))) \<le> 1
      \<and> ((\<exists>r\<in>set (rows_of m (add_failed (sort_values df))). health_score r < 0.3) \<longrightarrow>
           length (filter (\<lambda>r. failed r = 1) (rows_of m (add_failed (sort_values df)))) = 1))
   \<and> (k < N_MACHINES \<and> 0 \<le> u_wear (ds k) \<and> u_wear (ds k) < 1 \<longrightarrow>
        sorted_wrt (\<ge>) (map health_score (rows_of k (generate N_MACHINES time_index ds)))
        \<and> length (filter (\<lambda>r. failed r = 1) (rows_of k (generate N_MACHINES time_index ds))) = 1)"
proof -
  let ?rows = "rows_of m (add_failed (sort_values df))"
  have generic: "length (filter (\<lambda>r. failed r = 1) ?rows) \<le> 1
      \<and> ((\<exists>r\<in>set ?rows. health_score r < 0.3) \<longrightarrow>
           length (filter (\<lambda>r. failed r = 1) ?rows) = 1)"
    if mono: "sorted_wrt (\<ge>) (map health_score ?rows)"
  proof -
    have hs: "map health_score ?rows = map health_score (rows_of m (sort_values df))"
      by (rule health_rows_of)
    have count: "length (filter (\<lambda>r. failed r = 1) ?rows)
          = (if \<exists>r\<in>set (rows_of m (sort_values df)). health_score r < HEALTH_THRESHOLD
             then 1 else 0)"
      using mono unfolding hs by (rule failed_count_monotone)
    have "(\<exists>r\<in>set (rows_of m (sort_values df)). health_score r < HEALTH_THRESHOLD)
          \<longleftrightarrow> (\<exists>h\<in>set (map health_score (rows_of m (sort_values df))). h < HEALTH_THRESHOLD)"
      by simp
    also have "\<dots> \<longleftrightarrow> (\<exists>h\<in>set (map health_score ?rows). h < HEALTH_THRESHOLD)"
      by (simp only: hs)
    also have "\<dots> \<longleftrightarrow> (\<exists>r\<in>set ?rows. health_score r < 0.3)"
      by (simp add: HEALTH_THRESHOLD_def)
    finally have "(\<exists>r\<in>set (rows_of m (sort_values df)). health_score r < HEALTH_THRESHOLD)
               \<longleftrightarrow> (\<exists>r\<in>set ?rows. health_score r < 0.3)" .
    then show ?thesis using count by auto
  qed
  have own: "sorted_wrt (\<ge>) (map health_score (rows_of k (generate N_MACHINES time_index ds)))
        \<and> length (filter (\<lambda>r. failed r = 1) (rows_of k (generate N_MACHINES time_index ds))) = 1"
    if "k < N_MACHINES" and "0 \<le> u_wear (ds k)"
    using sorted_time_index that
    by (rule generated_machine_fails_once) (simp add: length_time_index)
  show ?thesis using generic own by blast
qed

theorem monotone_series_fails_once_witness:
  "sorted_wrt (\<ge>) (map health_score (rows_of 0 (add_failed (sort_values example_table))))
   \<and> length (filter (\<lambda>r. failed r = 1) (rows_of 0 (add_failed (sort_values example_table)))) = 1
   \<and> (0::nat) < N_MACHINES \<and> u_wear example_draws = 0
   \<and> length (filter (\<lambda>r. failed r = 1)
         (rows_of 0 (generate N_MACHINES time_index (\<lambda>m. example_draws)))) = 1"
proof -
  have hs: "map health_score (rows_of 0 (add_failed (sort_values example_table)))
            = [1, 1 / 2, 1 / 4, 1 / 10]"
    using arg_cong[OF example_table_machine_0, of "map (\<lambda>p. fst (snd p))"]
    by (simp add: comp_def)
  have mono: "sorted_wrt (\<ge>) (map health_score (rows_of 0 (add_failed (sort_values example_table))))"
    unfolding hs by simp
  have low: "\<exists>r\<in>set (rows_of 0 (add_failed (sort_values example_table))). health_score r < 0.3"
  proof -
    have "(1 / 4 :: real) \<in> set (map health_score (rows_of 0 (add_failed (sort_values example_table))))"
      unfolding hs by simp
    then obtain r where r: "r \<in> set (rows_of 0 (add_failed (sort_values example_table)))"
      and h: "health_score r = 1 / 4" by auto
    have "health_score r < 0.3" unfolding h by simp
    then show ?thesis using r by blast
  qed
  have n: "(0::nat) < N_MACHINES" by (simp add: N_MACHINES_def)
  have u: "u_wear example_draws = 0" by (simp add: example_draws_def)
  show ?thesis
    using monotone_series_fails_once[of 0 example_table 0 "\<lambda>m. example_draws"] mono low n u
    by simp
qed

section \<open>Properties of the prediction service\<close>

subsection \<open>Building the feature vector\<close>

lemma py_float_number:
  "float_number v \<Longrightarrow> py_float parse v = Inr (number_value v)"
  by (cases v) (simp_all add: float_number_def number_value_def)

lemma dict_get_number:
  assumes "\<forall>v. map_of fs col = Some v \<longrightarrow> float_number v"
  shows "py_float parse (dict_get fs col (JNum 0.0))
         = Inr (case map_of fs col of None \<Rightarrow> 0 | Some v \<Rightarrow> number_value v)"
  using assms by (auto simp: dict_get_def py_float_number split: option.splits)

lemma feature_vector_numbers:
  "\<forall>col\<in>set cols. \<forall>v. map_of fs col = Some v \<longrightarrow> float_number v \<Longrightarrow>
   feature_vector parse fs cols
   = Inr (map (\<lambda>col. case map_of fs col of None \<Rightarrow> 0 | Some v \<Rightarrow> number_value v) cols)"
proof (induction cols)
  case Nil
  then show ?case by simp
next
  case (Cons col cols)
  have head: "py_float parse (dict_get fs col (JNum 0.0))
         = Inr (case map_of fs col of None \<Rightarrow> 0 | Some v \<Rightarrow> number_value v)"
    using Cons.prems by (intro dict_get_number) simp
  have tail: "feature_vector parse fs cols
   = Inr (map (\<lambda>col. case map_of fs col of None \<Rightarrow> 0 | Some v \<Rightarrow> number_value v) cols)"
    using Cons by simp
  show ?case by (simp only: feature_vector.simps head tail) simp
qed

lemma feature_vector_error_source:
  "feature_vector parse fs cols = Inl e \<Longrightarrow>
   \<exists>col\<in>set cols. py_float parse (dict_get fs col (JNum 0)) = Inl e"
  by (induction cols) (auto split: sum.splits)

lemma feature_vector_cong:
  "\<forall>col\<in>set cols. map_of fs' col = map_of fs col \<Longrightarrow>
   feature_vector parse fs' cols = feature_vector parse fs cols"
  by (induction cols) (auto simp: dict_get_def split: sum.splits)

lemma feature_vector_converts:
  "\<forall>col\<in>set cols. \<exists>x. py_float parse (dict_get fs col (JNum 0)) = Inr x \<Longrightarrow>
   feature_vector parse fs cols
   = Inr (map (\<lambda>col. projr (py_float parse (dict_get fs col (JNum 0)))) cols)"
  by (induction cols) auto

lemma feature_vector_fails_iff:
  "(\<exists>e. feature_vector parse fs cols = Inl e) \<longleftrightarrow>
   (\<exists>col\<in>set cols. \<exists>e. py_float parse (dict_get fs col (JNum 0)) = Inl e)"
  by (induction cols) (auto split: sum.splits)

lemma predict_of_vector:
  "feature_vector parse (features payload) (feature_cols art) = Inr x \<Longrightarrow>
   predict_failure_24h parse art payload = Inr (response_of (model art x))"
  by (simp add: predict_failure_24h_def response_of_def Let_def)

lemma predict_of_error:
  "feature_vector parse (features payload) (feature_cols art) = Inl e \<Longrightarrow>
   predict_failure_24h parse art payload = Inl e"
  by (simp add: predict_failure_24h_def)

lemma predict_fails_iff:
  "(\<exists>e. predict_failure_24h parse art payload = Inl e) \<longleftrightarrow>
   (\<exists>e. feature_vector parse (features payload) (feature_cols art) = Inl e)"
  by (auto simp: predict_failure_24h_def Let_def split: sum.splits)

lemma py_round_near: "\<bar>py_round p 3 - p\<bar> \<le> 1 / 2000"
proof -
  have "\<bar>of_int (round_half_even (p * 10 ^ 3)) - p * 10 ^ 3\<bar> \<le> 1 / 2"
    by (rule round_half_even_near)
  then have "\<bar>(of_int (round_half_even (p * 10 ^ 3)) - p * 10 ^ 3) / 10 ^ 3\<bar> \<le> (1 / 2) / 10 ^ 3"
    by (simp add: abs_divide del: of_int_diff)
  then show ?thesis by (simp add: py_round_def diff_divide_distrib)
qed

lemma py_round_grid: "py_round p 3 * 1000 = of_int (round_half_even (p * 1000))"
  by (simp add: py_round_def)

lemma decimal_literal_examples:
  "decimal_literal ''1.5'' = Some 1.5" "decimal_literal ''abc'' = None"
  by (simp_all add: decimal_literal_def unsigned_decimal_def digit_val_def)

lemma risk_strings_distinct:
  "LOW_RISK \<noteq> MODERATE_RISK" "MODERATE_RISK \<noteq> HIGH_RISK" "LOW_RISK \<noteq> HIGH_RISK"
  by (simp_all add: LOW_RISK_def MODERATE_RISK_def HIGH_RISK_def)

subsection \<open>The claims about the handler\<close>

text \<open>
  As the specification states it, claim C4 does not hold for every feature mapping: an
  integer too large for a double under a listed feature name makes \<open>float()\<close> raise
  \<open>OverflowError\<close>, so that no vector is built and no response returned.
\<close>

theorem huge_integer_feature_overflows:
  "float_number (JInt (10 ^ 400)) = False
   \<and> feature_vector decimal_literal [(''f1'', JInt (10 ^ 400))] [''f1'', ''f2'']
      = Inl OverflowError
   \<and> predict_failure_24h decimal_literal
        \<lparr> model = constant_classifier 0.5, feature_cols = [''f1'', ''f2''] \<rparr>
        \<lparr> features = [(''f1'', JInt (10 ^ 400))] \<rparr>
      = Inl OverflowError"
  by (simp add: float_number_def FLOAT_OVERFLOW_def dict_get_def predict_failure_24h_def)

text \<open>
  Claim C4, as the code has it. For every feature mapping whose values under the model's
  feature names are numbers that \<open>float()\<close> converts (any float, any integer within the
  range of a double), the handler builds the model's input in the order of the stored
  feature names, with 0.0 for every name the mapping lacks, and answers with the two
  fields; names outside the list play no part: any mapping that agrees with it on the
  listed names gives the same vector, whatever else it holds. In particular the empty
  mapping against the features \<open>[f1, f2]\<close> gives the vector \<open>[0.0, 0.0]\<close> and a response
  with the probability and the recommendation.
\<close>

theorem predict_builds_ordered_vector:
  assumes "\<forall>col\<in>set (feature_cols art).
             \<forall>v. map_of (features payload) col = Some v \<longrightarrow> float_number v"
  shows "feature_vector parse (features payload) (feature_cols art)
     = Inr (map (\<lambda>col. case map_of (features payload) col of
                          None \<Rightarrow> 0 | Some v \<Rightarrow> number_value v) (feature_cols art))
   \<and> predict_failure_24h parse art payload
     = Inr [(''failure_probability_24h'',
             JNum (py_round (model art
                (map (\<lambda>col. case map_of (features payload) col of
                               None \<Rightarrow> 0 | Some v \<Rightarrow> number_value v) (feature_cols art))) 3)),
            (''recommendation'',
             JStr (recommendation_for (model art
                (map (\<lambda>col. case map_of (features payload) col of
                               None \<Rightarrow> 0 | Some v \<Rightarrow> number_value v) (feature_cols art)))))]
   \<and> (\<forall>fs'. (\<forall>col\<in>set (feature_cols art). map_of fs' col = map_of (features payload) col)
          \<longrightarrow> feature_vector parse fs' (feature_cols art)
              = Inr (map (\<lambda>col. case map_of (features payload) col of
                                   None \<Rightarrow> 0 | Some v \<Rightarrow> number_value v) (feature_cols art)))
   \<and> feature_vector parse [] [f1, f2] = Inr [0, 0]
   \<and> predict_failure_24h parse \<lparr> model = mdl, feature_cols = [f1, f2] \<rparr> \<lparr> features = [] \<rparr>
     = Inr [(''failure_probability_24h'', JNum (py_round (mdl [0, 0]) 3)),
            (''recommendation'', JStr (recommendation_for (mdl [0, 0])))]"
proof -
  let ?x = "map (\<lambda>col. case map_of (features payload) col of
                          None \<Rightarrow> 0 | Some v \<Rightarrow> number_value v) (feature_cols art)"
  have vec: "feature_vector parse (features payload) (feature_cols art) = Inr ?x"
    using assms by (rule feature_vector_numbers)
  have resp: "predict_failure_24h parse art payload = Inr (response_of (model art ?x))"
    using vec by (rule predict_of_vector)
  have extra: "\<forall>fs'. (\<forall>col\<in>set (feature_cols art).
                        map_of fs' col = map_of (features payload) col)
          \<longrightarrow> feature_vector parse fs' (feature_cols art) = Inr ?x"
  proof (intro allI impI)
    fix fs'
    assume "\<forall>col\<in>set (feature_cols art). map_of fs' col = map_of (features payload) col"
    then have "feature_vector parse fs' (feature_cols art)
               = feature_vector parse (features payload) (feature_cols art)"
      by (rule feature_vector_cong)
    then show "feature_vector parse fs' (feature_cols art) = Inr ?x"
      using vec by simp
  qed
  have empty_vec: "feature_vector parse [] [f1, f2] = Inr [0, 0]"
    by (simp add: dict_get_def)
  have empty_resp:
    "predict_failure_24h parse \<lparr> model = mdl, feature_cols = [f1, f2] \<rparr> \<lparr> features = [] \<rparr>
     = Inr (response_of (mdl [0, 0]))"
    by (simp add: predict_failure_24h_def response_of_def Let_def dict_get_def)
  show ?thesis
    using vec resp extra empty_vec empty_resp unfolding response_of_def by simp
qed

theorem predict_builds_ordered_vector_witness:
  "float_number (JInt 3) \<and> float_number (JNum 0.7)
   \<and> feature_vector decimal_literal
        [(''extra'', JInt (10 ^ 400)), (''f2'', JInt 3), (''f1'', JNum 0.7)] [''f1'', ''f2'', ''f3'']
      = Inr [0.7, 3, 0]
   \<and> predict_failure_24h decimal_literal
        \<lparr> model = constant_classifier 0.25, feature_cols = [''f1'', ''f2'', ''f3''] \<rparr>
        \<lparr> features = [(''f2'', JInt 3), (''f1'', JNum 0.7)] \<rparr>
     = Inr [(''failure_probability_24h'', JNum 0.25), (''recommendation'', JStr LOW_RISK)]"
proof -
  let ?art = "\<lparr> model = constant_classifier 0.25, feature_cols = [''f1'', ''f2'', ''f3''] \<rparr>"
  let ?payload = "\<lparr> features = [(''f2'', JInt 3), (''f1'', JNum 0.7)] \<rparr>"
  let ?fs' = "[(''extra'', JInt (10 ^ 400)), (''f2'', JInt 3), (''f1'', JNum 0.7)]"
  have numbers: "float_number (JInt 3) \<and> float_number (JNum 0.7)"
    by (simp add: float_number_def FLOAT_OVERFLOW_def)
  have listed: "\<forall>col\<in>set (feature_cols ?art).
                  \<forall>v. map_of (features ?payload) col = Some v \<longrightarrow> float_number v"
    using numbers by simp
  note all = predict_builds_ordered_vector[OF listed, of decimal_literal
      "''f1''" "''f2''" "constant_classifier 0.25"]
  have agree: "\<forall>col\<in>set (feature_cols ?art). map_of ?fs' col = map_of (features ?payload) col"
    by simp
  have "feature_vector decimal_literal ?fs' (feature_cols ?art)
        = Inr (map (\<lambda>col. case map_of (features ?payload) col of
                             None \<Rightarrow> 0 | Some v \<Rightarrow> number_value v) (feature_cols ?art))"
    using all agree by blast
  then have vec: "feature_vector decimal_literal ?fs' [''f1'', ''f2'', ''f3''] = Inr [0.7, 3, 0]"
    by (simp add: number_value_def)
  have r: "py_round (constant_classifier 0.25 [0.7, 3, 0]) 3 = 0.25"
    by (simp add: constant_classifier_def py_round_def round_half_even_def Let_def)
  have c: "recommendation_for (constant_classifier 0.25 [0.7, 3, 0]) = LOW_RISK"
    by (simp add: constant_classifier_def recommendation_for_def)
  have "predict_failure_24h decimal_literal ?art ?payload
        = Inr [(''failure_probability_24h'',
                JNum (py_round (constant_classifier 0.25 [0.7, 3, 0]) 3)),
               (''recommendation'',
                JStr (recommendation_for (constant_classifier 0.25 [0.7, 3, 0])))]"
    using all by (simp add: number_value_def)
  then show ?thesis using vec numbers unfolding r c by simp
qed

text \<open>
  Claim C5. The handler maps the classifier's probability \<open>p\<close> to the recommendation by
  the cut points 0.3 and 0.7: below 0.3 the low-risk text, from 0.3 up to but not
  including 0.7 the moderate-risk text, from 0.7 on the high-risk text (three different
  texts); so 0.3 is moderate, 0.7 is high, 0.0 is low and 1.0 is high. The probability it
  returns is \<open>p\<close> rounded to three decimal digits: a multiple of 0.001 at distance at most
  0.0005 from \<open>p\<close>.
\<close>

theorem recommendation_cut_points:
  "(p < 0.3 \<longrightarrow> recommendation_for p = LOW_RISK)
   \<and> (0.3 \<le> p \<and> p < 0.7 \<longrightarrow> recommendation_for p = MODERATE_RISK)
   \<and> (0.7 \<le> p \<longrightarrow> recommendation_for p = HIGH_RISK)
   \<and> recommendation_for 0.3 = MODERATE_RISK \<and> recommendation_for 0.7 = HIGH_RISK
   \<and> recommendation_for 0.0 = LOW_RISK \<and> recommendation_for 1.0 = HIGH_RISK
   \<and> LOW_RISK \<noteq> MODERATE_RISK \<and> MODERATE_RISK \<noteq> HIGH_RISK \<and> LOW_RISK \<noteq> HIGH_RISK
   \<and> (feature_vector parse (features payload) (feature_cols art) = Inr x \<longrightarrow>
        predict_failure_24h parse art payload
        = Inr [(''failure_probability_24h'', JNum (py_round (model art x) 3)),
               (''recommendation'', JStr (recommendation_for (model art x)))])
   \<and> py_round p 3 = of_int (round_half_even (p * 1000)) / 1000
   \<and> \<bar>py_round p 3 - p\<bar> \<le> 0.0005"
proof -
  have cuts: "(p < 0.3 \<longrightarrow> recommendation_for p = LOW_RISK)
   \<and> (0.3 \<le> p \<and> p < 0.7 \<longrightarrow> recommendation_for p = MODERATE_RISK)
   \<and> (0.7 \<le> p \<longrightarrow> recommendation_for p = HIGH_RISK)"
    by (simp add: recommendation_for_def)
  have bounds: "recommendation_for 0.3 = MODERATE_RISK \<and> recommendation_for 0.7 = HIGH_RISK
   \<and> recommendation_for 0.0 = LOW_RISK \<and> recommendation_for 1.0 = HIGH_RISK"
    by (simp add: recommendation_for_def)
  have resp: "feature_vector parse (features payload) (feature_cols art) = Inr x \<longrightarrow>
        predict_failure_24h parse art payload
        = Inr [(''failure_probability_24h'', JNum (py_round (model art x) 3)),
               (''recommendation'', JStr (recommendation_for (model art x)))]"
    using predict_of_vector[of parse payload art x] by (simp add: response_of_def)
  have grid: "py_round p 3 = of_int (round_half_even (p * 1000)) / 1000"
    by (simp add: py_round_def)
  have near: "\<bar>py_round p 3 - p\<bar> \<le> 0.0005"
    using py_round_near[of p] by simp
  show ?thesis
    using cuts bounds resp grid near risk_strings_distinct by blast
qed

theorem recommendation_cut_points_witness:
  "recommendation_for 0.2999 = LOW_RISK \<and> recommendation_for 0.6999 = MODERATE_RISK
   \<and> recommendation_for 0.9 = HIGH_RISK
   \<and> predict_failure_24h decimal_literal
        \<lparr> model = constant_classifier 0.7126, feature_cols = [''f1''] \<rparr> \<lparr> features = [] \<rparr>
      = Inr [(''failure_probability_24h'', JNum 0.713), (''recommendation'', JStr HIGH_RISK)]"
proof -
  let ?art = "\<lparr> model = constant_classifier 0.7126, feature_cols = [''f1''] \<rparr>"
  have vec: "feature_vector decimal_literal (features \<lparr> features = [] \<rparr>) (feature_cols ?art)
             = Inr [0]"
    by (simp add: dict_get_def)
  have r: "py_round 0.7126 3 = 0.713"
    by (simp add: py_round_def round_half_even_def Let_def)
  have m: "model ?art [0] = 0.7126" by (simp add: constant_classifier_def)
  have a: "recommendation_for 0.2999 = LOW_RISK"
    using recommendation_cut_points[of "0.2999"] by simp
  have b: "recommendation_for 0.6999 = MODERATE_RISK"
    using recommendation_cut_points[of "0.6999"] by simp
  have c: "recommendation_for 0.9 = HIGH_RISK"
    using recommendation_cut_points[of "0.9"] by simp
  have d: "recommendation_for 0.7126 = HIGH_RISK"
    using recommendation_cut_points[of "0.7126"] by simp
  have "predict_failure_24h decimal_literal ?art \<lparr> features = [] \<rparr>
      = Inr [(''failure_probability_24h'', JNum (py_round (model ?art [0]) 3)),
             (''recommendation'', JStr (recommendation_for (model ?art [0])))]"
    using recommendation_cut_points[of 0 decimal_literal "\<lparr> features = [] \<rparr>" ?art "[0]"] vec
    by blast
  then show ?thesis using a b c unfolding m r d by simp
qed

text \<open>
  Claim C9. Some values that are not numbers do not make the handler fail: \<open>float()\<close>
  turns \<open>True\<close> into 1.0, \<open>False\<close> into 0.0 and a string it can parse into the parsed
  number, and when every value under a listed feature name converts, the handler returns
  the normal response for the converted vector. The request fails only when the value
  under some listed feature name does not convert.
\<close>

theorem float_coerces_strings_and_booleans:
  "py_float parse (JBool True) = Inr 1 \<and> py_float parse (JBool False) = Inr 0
   \<and> (parse s = Some v \<longrightarrow> py_float parse (JStr s) = Inr v)
   \<and> ((\<forall>col\<in>set (feature_cols art).
          \<exists>x. py_float parse (dict_get (features payload) col (JNum 0)) = Inr x) \<longrightarrow>
        predict_failure_24h parse art payload
        = Inr [(''failure_probability_24h'',
                JNum (py_round (model art
                  (map (\<lambda>col. projr (py_float parse (dict_get (features payload) col (JNum 0))))
                     (feature_cols art))) 3)),
               (''recommendation'',
                JStr (recommendation_for (model art
                  (map (\<lambda>col. projr (py_float parse (dict_get (features payload) col (JNum 0))))
                     (feature_cols art)))))])
   \<and> ((\<exists>e. predict_failure_24h parse art payload = Inl e) \<longleftrightarrow>
        (\<exists>col\<in>set (feature_cols art).
           \<exists>e. py_float parse (dict_get (features payload) col (JNum 0)) = Inl e))"
proof -
  have conv: "py_float parse (JBool True) = Inr 1 \<and> py_float parse (JBool False) = Inr 0
   \<and> (parse s = Some v \<longrightarrow> py_float parse (JStr s) = Inr v)"
    by simp
  have ok: "(\<forall>col\<in>set (feature_cols art).
          \<exists>x. py_float parse (dict_get (features payload) col (JNum 0)) = Inr x) \<longrightarrow>
        predict_failure_24h parse art payload
        = Inr (response_of (model art
                  (map (\<lambda>col. projr (py_float parse (dict_get (features payload) col (JNum 0))))
                     (feature_cols art))))"
    using predict_of_vector[OF feature_vector_converts, of art parse payload] by blast
  have fails: "(\<exists>e. predict_failure_24h parse art payload = Inl e) \<longleftrightarrow>
        (\<exists>col\<in>set (feature_cols art).
           \<exists>e. py_float parse (dict_get (features payload) col (JNum 0)) = Inl e)"
    unfolding predict_fails_iff by (rule feature_vector_fails_iff)
  show ?thesis using conv ok fails unfolding response_of_def by blast
qed

theorem float_coerces_strings_and_booleans_witness:
  "py_float decimal_literal (JStr ''1.5'') = Inr 1.5
   \<and> feature_vector decimal_literal [(''f1'', JStr ''1.5''), (''f2'', JBool True)] [''f1'', ''f2'']
      = Inr [1.5, 1]
   \<and> predict_failure_24h decimal_literal
        \<lparr> model = constant_classifier 0.5, feature_cols = [''f1'', ''f2''] \<rparr>
        \<lparr> features = [(''f1'', JStr ''1.5''), (''f2'', JBool True)] \<rparr>
      = Inr [(''failure_probability_24h'', JNum 0.5), (''recommendation'', JStr MODERATE_RISK)]"
  using float_coerces_strings_and_booleans[of decimal_literal "''1.5''" "1.5"
      "\<lparr> model = constant_classifier 0.5, feature_cols = [''f1'', ''f2''] \<rparr>"
      "\<lparr> features = [(''f1'', JStr ''1.5''), (''f2'', JBool True)] \<rparr>"]
  by (simp add: decimal_literal_examples dict_get_def predict_failure_24h_def
      constant_classifier_def py_round_def round_half_even_def recommendation_for_def Let_def)

text \<open>
  As the specification states it, claim C6 does not hold: a string that \<open>float()\<close> cannot
  parse, under a listed feature name, fails the request with the \<open>ValueError\<close> of the
  conversion itself. The handler defines no InvalidInput error and catches nothing.
\<close>

theorem unparsable_string_raises_value_error:
  "predict_failure_24h decimal_literal
     \<lparr> model = constant_classifier 0.5, feature_cols = [''f1'', ''f2''] \<rparr>
     \<lparr> features = [(''f2'', JStr ''abc'')] \<rparr>
   = Inl ValueError"
  by (simp add: predict_failure_24h_def dict_get_def decimal_literal_examples)

text \<open>
  Claim C6, as the code has it. A request fails exactly when its mapping holds, under one
  of the model's feature names, a value that \<open>float()\<close> cannot convert, and it fails with
  the exception \<open>float()\<close> raises there: \<open>ValueError\<close> for a string it cannot parse,
  \<open>TypeError\<close> for null, a list or an object, \<open>OverflowError\<close> for an integer beyond the
  range of a double. There is no partial result: the handler either raises or returns the
  complete response. Missing and extra keys never cause an error: a missing name converts
  as 0.0, and a mapping that agrees with the request on the listed names gets the same
  outcome, whatever it holds under other names.
\<close>

theorem request_fails_iff_listed_value_unconvertible:
  "((\<exists>e. predict_failure_24h parse art payload = Inl e) \<longleftrightarrow>
      (\<exists>col\<in>set (feature_cols art).
         \<exists>e. py_float parse (dict_get (features payload) col (JNum 0)) = Inl e))
   \<and> (\<forall>e. predict_failure_24h parse art payload = Inl e \<longrightarrow>
          (\<exists>col\<in>set (feature_cols art).
             py_float parse (dict_get (features payload) col (JNum 0)) = Inl e))
   \<and> (parse s = None \<longrightarrow> py_float parse (JStr s) = Inl ValueError)
   \<and> py_float parse JNull = Inl TypeError
   \<and> py_float parse (JArr xs) = Inl TypeError
   \<and> py_float parse (JObj kvs) = Inl TypeError
   \<and> (FLOAT_OVERFLOW \<le> \<bar>n\<bar> \<longrightarrow> py_float parse (JInt n) = Inl OverflowError)
   \<and> ((\<exists>e. predict_failure_24h parse art payload = Inl e)
       \<or> (\<exists>x. feature_vector parse (features payload) (feature_cols art) = Inr x
              \<and> predict_failure_24h parse art payload
                = Inr [(''failure_probability_24h'', JNum (py_round (model art x) 3)),
                       (''recommendation'', JStr (recommendation_for (model art x)))]))
   \<and> (map_of (features payload) c = None \<longrightarrow>
        py_float parse (dict_get (features payload) c (JNum 0)) = Inr 0)
   \<and> (\<forall>fs'. (\<forall>col\<in>set (feature_cols art). map_of fs' col = map_of (features payload) col)
          \<longrightarrow> predict_failure_24h parse art \<lparr> features = fs' \<rparr>
              = predict_failure_24h parse art payload)"
proof -
  have fails: "(\<exists>e. predict_failure_24h parse art payload = Inl e) \<longleftrightarrow>
      (\<exists>col\<in>set (feature_cols art).
         \<exists>e. py_float parse (dict_get (features payload) col (JNum 0)) = Inl e)"
    unfolding predict_fails_iff by (rule feature_vector_fails_iff)
  have source: "\<forall>e. predict_failure_24h parse art payload = Inl e \<longrightarrow>
          (\<exists>col\<in>set (feature_cols art).
             py_float parse (dict_get (features payload) col (JNum 0)) = Inl e)"
  proof (intro allI impI)
    fix e
    assume "predict_failure_24h parse art payload = Inl e"
    then have "feature_vector parse (features payload) (feature_cols art) = Inl e"
      by (auto simp: predict_failure_24h_def Let_def split: sum.splits)
    then show "\<exists>col\<in>set (feature_cols art).
                 py_float parse (dict_get (features payload) col (JNum 0)) = Inl e"
      by (rule feature_vector_error_source)
  qed
  have kinds: "(parse s = None \<longrightarrow> py_float parse (JStr s) = Inl ValueError)
   \<and> py_float parse JNull = Inl TypeError
   \<and> py_float parse (JArr xs) = Inl TypeError
   \<and> py_float parse (JObj kvs) = Inl TypeError
   \<and> (FLOAT_OVERFLOW \<le> \<bar>n\<bar> \<longrightarrow> py_float parse (JInt n) = Inl OverflowError)"
    by simp
  have whole: "(\<exists>e. predict_failure_24h parse art payload = Inl e)
       \<or> (\<exists>x. feature_vector parse (features payload) (feature_cols art) = Inr x
              \<and> predict_failure_24h parse art payload = Inr (response_of (model art x)))"
  proof (cases "feature_vector parse (features payload) (feature_cols art)")
    case (Inl e)
    then show ?thesis using predict_of_error[OF Inl] by simp
  next
    case (Inr x)
    then show ?thesis using predict_of_vector[OF Inr] by simp
  qed
  have missing: "map_of (features payload) c = None \<longrightarrow>
        py_float parse (dict_get (features payload) c (JNum 0)) = Inr 0"
    by (simp add: dict_get_def)
  have extra: "\<forall>fs'. (\<forall>col\<in>set (feature_cols art). map_of fs' col = map_of (features payload) col)
          \<longrightarrow> predict_failure_24h parse art \<lparr> features = fs' \<rparr>
              = predict_failure_24h parse art payload"
  proof (intro allI impI)
    fix fs'
    assume "\<forall>col\<in>set (feature_cols art). map_of fs' col = map_of (features payload) col"
    then have "feature_vector parse fs' (feature_cols art)
               = feature_vector parse (features payload) (feature_cols art)"
      by (rule feature_vector_cong)
    then show "predict_failure_24h parse art \<lparr> features = fs' \<rparr>
               = predict_failure_24h parse art payload"
      by (simp add: predict_failure_24h_def)
  qed
  show ?thesis
    using fails source kinds whole missing extra unfolding response_of_def by blast
qed

theorem request_fails_iff_listed_value_unconvertible_witness:
  "predict_failure_24h decimal_literal
     \<lparr> model = constant_classifier 0.5, feature_cols = [''f1'', ''f2''] \<rparr>
     \<lparr> features = [(''f1'', JNull), (''f2'', JStr ''abc'')] \<rparr> = Inl TypeError
   \<and> predict_failure_24h decimal_literal
     \<lparr> model = constant_classifier 0.5, feature_cols = [''f1'', ''f2''] \<rparr>
     \<lparr> features = [(''f2'', JInt (- (10 ^ 400)))] \<rparr> = Inl OverflowError
   \<and> predict_failure_24h decimal_literal
     \<lparr> model = constant_classifier 0.5, feature_cols = [''f1'', ''f2''] \<rparr>
     \<lparr> features = [(''extra'', JArr [JNum 1]), (''f2'', JNum 1)] \<rparr>
     = Inr [(''failure_probability_24h'', JNum 0.5), (''recommendation'', JStr MODERATE_RISK)]"
proof -
  let ?art = "\<lparr> model = constant_classifier 0.5, feature_cols = [''f1'', ''f2''] \<rparr>"
  let ?p1 = "\<lparr> features = [(''f1'', JNull), (''f2'', JStr ''abc'')] \<rparr>"
  note all = request_fails_iff_listed_value_unconvertible[of decimal_literal ?art ?p1
      "''abc''" "[]" "[]" "- (10 ^ 400)" "''f3''"]
  have bad: "\<exists>col\<in>set (feature_cols ?art).
         \<exists>e. py_float decimal_literal (dict_get (features ?p1) col (JNum 0)) = Inl e"
    by (simp add: dict_get_def)
  have "\<exists>e. predict_failure_24h decimal_literal ?art ?p1 = Inl e"
    using all bad by blast
  then have first: "predict_failure_24h decimal_literal ?art ?p1 = Inl TypeError"
    by (simp add: predict_failure_24h_def dict_get_def)
  have second: "predict_failure_24h decimal_literal ?art
      \<lparr> features = [(''f2'', JInt (- (10 ^ 400)))] \<rparr> = Inl OverflowError"
    by (simp add: predict_failure_24h_def dict_get_def FLOAT_OVERFLOW_def)
  have third: "predict_failure_24h decimal_literal ?art
      \<lparr> features = [(''extra'', JArr [JNum 1]), (''f2'', JNum 1)] \<rparr>
     = Inr [(''failure_probability_24h'', JNum 0.5), (''recommendation'', JStr MODERATE_RISK)]"
    by (simp add: predict_failure_24h_def dict_get_def constant_classifier_def py_round_def
        round_half_even_def recommendation_for_def Let_def)
  show ?thesis using first second third by simp
qed

end
